theory Spec2Isabelle
  imports Complex_Main "HOL-Library.Word" "HOL-Library.Log_Nat"
begin

unbundle bit_operations_syntax

section \<open>The light-bar detector of src/2/main.cpp\<close>

text \<open>
  The class \<open>ImageProcessor\<close> thresholds a colour image in HSV space
  (\<open>extractLightBars\<close>) and keeps the contours of the resulting mask whose
  measurements look like a light bar (\<open>filterLightBars\<close>). The functions of
  OpenCV and of the C++ standard library that the class calls are not part of the
  repository: those whose result is fixed by a one-line pixel formula are written
  out here, the others are fields of the record \<open>ext\<close> that every
  definition takes as its first argument.
\<close>

subsection \<open>The C++ type double\<close>

text \<open>
  A double is a rational number, an infinity or a NaN. Division rounds the exact
  quotient to 53 significant bits, ties to even. The exponent is left unbounded:
  the only division of the program is between two 32-bit integers, and such a
  quotient is 0 or lies between \<open>2^-31\<close> and \<open>2^31\<close> in magnitude, where binary64
  neither overflows nor loses precision to subnormals.
\<close>

datatype double = Finite rat | PInf | NInf | NaN

text \<open>\<open>a < b\<close> on doubles: false whenever an operand is NaN.\<close>

fun dless :: "double \<Rightarrow> double \<Rightarrow> bool" where
  "dless (Finite a) (Finite b) = (a < b)"
| "dless (Finite a) PInf = True"
| "dless NInf (Finite b) = True"
| "dless NInf PInf = True"
| "dless _ _ = False"

definition pow2 :: "int \<Rightarrow> rat" where
  "pow2 e = (if 0 \<le> e then 2 ^ nat e else 1 / 2 ^ nat (- e))"

definition round_half_even :: "rat \<Rightarrow> int" where
  "round_half_even q =
     (let f = \<lfloor>q\<rfloor>; d = q - of_int f
      in if d < 1 / 2 then f else if 1 / 2 < d then f + 1 else if even f then f else f + 1)"

text \<open>The binary exponent of a positive rational: \<open>2^e \<le> v < 2^(e+1)\<close>.\<close>

definition ilog2 :: "rat \<Rightarrow> int" where
  "ilog2 v =
     (let (p, q) = quotient_of v; d = bitlen p - bitlen q
      in if pow2 d \<le> v then d else d - 1)"

definition round_double :: "rat \<Rightarrow> rat" where
  "round_double v =
     (if v = 0 then 0
      else let u = pow2 (ilog2 \<bar>v\<bar> - 52)
           in of_int (round_half_even (v / u)) * u)"

text \<open>
  \<open>(double)h / w\<close> for two ints: both conversions are exact, a zero divisor gives
  an infinity of the sign of \<open>h\<close>, or NaN for \<open>0 / 0\<close>; nothing is raised.
\<close>

definition double_div_int :: "int \<Rightarrow> int \<Rightarrow> double" where
  "double_div_int h w =
     (if w = 0 then (if 0 < h then PInf else if h < 0 then NInf else NaN)
      else Finite (round_double (of_int h / of_int w)))"

text \<open>
  \<open>(int)area\<close> truncates towards zero. C++ leaves the cast undefined for
  infinities and NaN, and so does this function; the program casts only areas
  between 50 and 5000.
\<close>

fun double_to_int :: "double \<Rightarrow> int" where
  "double_to_int (Finite a) = (if 0 \<le> a then \<lfloor>a\<rfloor> else \<lceil>a\<rceil>)"

subsection \<open>Matrices, rectangles and the external functions\<close>

type_synonym uchar = "8 word"

text \<open>A pixel of a three-channel 8-bit image: (B, G, R) or (H, S, V).\<close>

type_synonym Vec3b = "uchar \<times> uchar \<times> uchar"

text \<open>\<open>cv::Mat\<close> by value: the dimensions and the elements in row-major order.\<close>

record 'a Mat =
  rows :: nat
  cols :: nat
  elems :: "'a list"

text \<open>\<open>Mat::empty()\<close>: no element.\<close>

definition Mat_empty :: "'a Mat \<Rightarrow> bool" where
  "Mat_empty m = (rows m * cols m = 0)"

text \<open>\<open>cv::Rect\<close> and \<open>cv::Point\<close>, with \<open>int\<close> fields.\<close>

record Rect =
  rect_x :: "32 word"
  rect_y :: "32 word"
  width :: "32 word"
  height :: "32 word"

record Point =
  pt_x :: "32 word"
  pt_y :: "32 word"

text \<open>\<open>cv::Scalar\<close> with its first three components, all integral in the source.\<close>

datatype Scalar = Scalar int int int

datatype MorphTypes = MORPH_OPEN | MORPH_CLOSE

datatype MorphShapes = MORPH_RECT

datatype HersheyFonts = FONT_HERSHEY_SIMPLEX

text \<open>
  The messages of the class's exceptions, by what they say (the source's texts
  are Chinese): "cannot load image: path"; "the image is empty, cannot get its
  size", "... its channel count", "... its pixel data", "... convert it to
  grey", "... apply the mean blur", "... apply the Gaussian blur", "... extract
  light bars"; "the kernel size must be a positive odd number"; "the binary
  image is empty".
\<close>

datatype message =
    MsgCannotLoad string
  | MsgImageEmptySize
  | MsgImageEmptyChannels
  | MsgImageEmptyPixelData
  | MsgImageEmptyGray
  | MsgImageEmptyMeanBlur
  | MsgImageEmptyGaussianBlur
  | MsgImageEmptyExtract
  | MsgKernelSize
  | MsgBinaryEmpty

text \<open>
  \<open>ImageProcessorException\<close> is the class's own exception; \<open>CvException\<close> is
  \<open>cv::Exception\<close>, which \<open>operator|\<close> throws on matrices of different sizes.
\<close>

datatype error = ImageProcessorException message | CvException

text \<open>
  Lines written to \<open>std::cout\<close>, with the values streamed into them. By the
  class: "image loaded: path"; "light-bar candidate regions extracted";
  "found n contours"; "valid light bar k: area=, aspect ratio=, position=(x,y)";
  "n valid light bars selected"; "the image is empty" and the five lines of
  \<open>displayImageInfo\<close> (a heading, the path, width x height, the channel
  count and the pixel count, an \<open>int\<close> product). By \<open>main\<close>: its
  headings and confirmations.
\<close>

datatype cout_line =
    ImageLoaded string
  | LightBarsExtracted
  | ContoursFound nat
  | ValidLightBar nat double double "32 word" "32 word"
  | LightBarsFiltered nat
  | InfoEmpty
  | InfoHeading
  | InfoPath string
  | InfoSize nat nat
  | InfoChannels int
  | InfoPixels "32 word"
  | MainHeading
  | PreprocessHeading
  | GrayDone
  | MeanBlurDone
  | GaussianBlurDone
  | DetectHeading
  | FilterHeading
  | ShowHeading
  | ResultsSaved
  | PressAnyKey

text \<open>
  The library functions whose results the source does not determine. \<open>imread\<close>
  gives the decoded file, empty when it cannot be read; the colour conversions
  act on each pixel; the blurs take the kernel's size, and the Gaussian one
  \<open>sigmaX\<close>; erosion and dilation take the structuring element;
  \<open>findContours\<close> is called with \<open>RETR_EXTERNAL\<close> and
  \<open>CHAIN_APPROX_SIMPLE\<close>; \<open>rectangle\<close> and \<open>putText\<close> return the image
  with the drawing on it; the last two fields are \<open>std::to_string\<close>. The
  functions are total: an exception that OpenCV itself may throw inside one of
  them is outside this development.
\<close>

record ext =
  imread :: "string \<Rightarrow> Vec3b Mat"
  cvtColor_BGR2GRAY :: "Vec3b \<Rightarrow> uchar"
  blur :: "Vec3b Mat \<Rightarrow> int \<times> int \<Rightarrow> Vec3b Mat"
  GaussianBlur :: "Vec3b Mat \<Rightarrow> int \<times> int \<Rightarrow> rat \<Rightarrow> Vec3b Mat"
  cvtColor_BGR2HSV :: "Vec3b \<Rightarrow> Vec3b"
  erode :: "uchar Mat \<Rightarrow> uchar Mat \<Rightarrow> uchar Mat"
  dilate :: "uchar Mat \<Rightarrow> uchar Mat \<Rightarrow> uchar Mat"
  findContours :: "uchar Mat \<Rightarrow> Point list list"
  boundingRect :: "Point list \<Rightarrow> Rect"
  contourArea :: "Point list \<Rightarrow> double"
  rectangle :: "Vec3b Mat \<Rightarrow> Rect \<Rightarrow> Scalar \<Rightarrow> int \<Rightarrow> Vec3b Mat"
  putText :: "Vec3b Mat \<Rightarrow> string \<Rightarrow> Point \<Rightarrow> HersheyFonts \<Rightarrow> rat \<Rightarrow> Scalar \<Rightarrow> int \<Rightarrow> Vec3b Mat"
  to_string_int :: "int \<Rightarrow> string"
  to_string_double :: "double \<Rightarrow> string"

subsection \<open>extractLightBars\<close>

text \<open>\<open>cv::cvtColor(image, hsv_image, cv::COLOR_BGR2HSV)\<close>.\<close>

definition cvtColor :: "ext \<Rightarrow> Vec3b Mat \<Rightarrow> Vec3b Mat" where
  "cvtColor cv src = \<lparr>rows = rows src, cols = cols src,
                      elems = map (cvtColor_BGR2HSV cv) (elems src)\<rparr>"

text \<open>
  \<open>cv::inRange\<close>: 255 where every channel lies within the inclusive bounds,
  0 elsewhere.
\<close>

fun inRange_px :: "Scalar \<Rightarrow> Scalar \<Rightarrow> Vec3b \<Rightarrow> uchar" where
  "inRange_px (Scalar l0 l1 l2) (Scalar u0 u1 u2) (c0, c1, c2) =
     (if l0 \<le> uint c0 \<and> uint c0 \<le> u0 \<and>
         l1 \<le> uint c1 \<and> uint c1 \<le> u1 \<and>
         l2 \<le> uint c2 \<and> uint c2 \<le> u2 then 255 else 0)"

definition inRange :: "Vec3b Mat \<Rightarrow> Scalar \<Rightarrow> Scalar \<Rightarrow> uchar Mat" where
  "inRange src lowerb upperb =
     \<lparr>rows = rows src, cols = cols src, elems = map (inRange_px lowerb upperb) (elems src)\<rparr>"

text \<open>\<open>a | b\<close> on matrices: the bitwise or of each element, or \<open>cv::Exception\<close>.\<close>

definition Mat_or :: "uchar Mat \<Rightarrow> uchar Mat \<Rightarrow> error + uchar Mat" where
  "Mat_or a b =
     (if rows a = rows b \<and> cols a = cols b
      then Inr \<lparr>rows = rows a, cols = cols a, elems = map2 (OR) (elems a) (elems b)\<rparr>
      else Inl CvException)"

text \<open>\<open>cv::getStructuringElement(cv::MORPH_RECT, cv::Size(w, h))\<close>: all ones.\<close>

fun getStructuringElement :: "MorphShapes \<Rightarrow> nat \<times> nat \<Rightarrow> uchar Mat" where
  "getStructuringElement MORPH_RECT (w, h) = \<lparr>rows = h, cols = w, elems = replicate (h * w) 1\<rparr>"

text \<open>
  Modelled from the spec: \<open>cv::morphologyEx\<close> belongs to OpenCV and is not
  under src/. Section 4.2 of the specification gives its two operations: an open
  is an erosion then a dilation, a close is a dilation then an erosion, with the
  same structuring element.
\<close>

fun morphologyEx :: "ext \<Rightarrow> uchar Mat \<Rightarrow> MorphTypes \<Rightarrow> uchar Mat \<Rightarrow> uchar Mat" where
  "morphologyEx cv src MORPH_OPEN kernel' = dilate cv kernel' (erode cv kernel' src)"
| "morphologyEx cv src MORPH_CLOSE kernel' = erode cv kernel' (dilate cv kernel' src)"

definition red_lower1 :: Scalar where "red_lower1 = Scalar 0 100 100"
definition red_upper1 :: Scalar where "red_upper1 = Scalar 10 255 255"
definition red_lower2 :: Scalar where "red_lower2 = Scalar 160 100 100"
definition red_upper2 :: Scalar where "red_upper2 = Scalar 180 255 255"
definition blue_lower :: Scalar where "blue_lower = Scalar 100 100 100"
definition blue_upper :: Scalar where "blue_upper = Scalar 130 255 255"

text \<open>
  Lines 138 to 161: the three thresholded masks and their union, \<open>final_mask\<close>
  before the morphology. (The channels split off at lines 130 to 135 are never
  read.)
\<close>

definition colorMask :: "ext \<Rightarrow> Vec3b Mat \<Rightarrow> error + uchar Mat" where
  "colorMask cv img =
     (let hsv_image = cvtColor cv img;
          red_mask1 = inRange hsv_image red_lower1 red_upper1;
          red_mask2 = inRange hsv_image red_lower2 red_upper2;
          blue_mask = inRange hsv_image blue_lower blue_upper
      in case Mat_or red_mask1 red_mask2 of
           Inl e \<Rightarrow> Inl e
         | Inr red_mask \<Rightarrow> Mat_or red_mask blue_mask)"

text \<open>Lines 164 to 166: one open, then one close, with the 3 by 3 rectangle.\<close>

definition refineMask :: "ext \<Rightarrow> uchar Mat \<Rightarrow> uchar Mat" where
  "refineMask cv final_mask =
     (let kernel' = getStructuringElement MORPH_RECT (3, 3);
          opened = morphologyEx cv final_mask MORPH_OPEN kernel'
      in morphologyEx cv opened MORPH_CLOSE kernel')"

text \<open>The method: the mask it returns and the line it prints, or the exception.\<close>

definition extractLightBars :: "ext \<Rightarrow> Vec3b Mat \<Rightarrow> error + (uchar Mat \<times> cout_line list)" where
  "extractLightBars cv img =
     (if Mat_empty img then Inl (ImageProcessorException MsgImageEmptyExtract)
      else case colorMask cv img of
             Inl e \<Rightarrow> Inl e
           | Inr final_mask \<Rightarrow> Inr (refineMask cv final_mask, [LightBarsExtracted]))"

subsection \<open>filterLightBars\<close>

text \<open>Line 201: \<open>(double)boundingRect.height / boundingRect.width\<close>.\<close>

definition aspectRatio_of :: "Rect \<Rightarrow> double" where
  "aspectRatio_of r = double_div_int (sint (height r)) (sint (width r))"

text \<open>Lines 204 to 210, on the three locals computed before them.\<close>

definition isValidLightBar :: "double \<Rightarrow> double \<Rightarrow> Rect \<Rightarrow> bool" where
  "isValidLightBar area aspectRatio r =
     (dless (Finite 50) area \<and>
      dless area (Finite 5000) \<and>
      dless (Finite (3 / 2)) aspectRatio \<and>
      dless aspectRatio (Finite 8) \<and>
      3 <s width r \<and>
      10 <s height r)"

text \<open>
  The pixel buffers of the colour images live in a store, and a \<open>cv::Mat\<close>
  variable is the address of its buffer: copying a header shares the buffer,
  \<open>clone()\<close> allocates a new one, and the drawing functions write into the
  buffer they are given. Buffers are never freed.
\<close>

type_synonym addr = nat

type_synonym store = "Vec3b Mat list"

definition clone :: "store \<Rightarrow> addr \<Rightarrow> addr \<times> store" where
  "clone s a = (length s, s @ [s ! a])"

text \<open>What the loop of lines 192 to 231 changes.\<close>

record loop_state =
  validLightBars :: "Rect list"
  bufs :: store
  cout :: "cout_line list"

text \<open>Lines 220 and 221: the label, the ratio cut to four characters.\<close>

definition info_text :: "ext \<Rightarrow> double \<Rightarrow> double \<Rightarrow> string" where
  "info_text cv area aspectRatio =
     ''A:'' @ to_string_int cv (double_to_int area) @
     '' R:'' @ take 4 (to_string_double cv aspectRatio)"

text \<open>
  Lines 217 to 224: the green rectangle of thickness 2, then the label five
  pixels above the rectangle's corner, on the pixels of \<open>visualResult\<close>.
\<close>

definition annotate :: "ext \<Rightarrow> Vec3b Mat \<Rightarrow> Rect \<Rightarrow> double \<Rightarrow> double \<Rightarrow> Vec3b Mat" where
  "annotate cv pixels r area aspectRatio =
     putText cv (rectangle cv pixels r (Scalar 0 255 0) 2)
       (info_text cv area aspectRatio)
       \<lparr>pt_x = rect_x r, pt_y = rect_y r - 5\<rparr>
       FONT_HERSHEY_SIMPLEX (2 / 5) (Scalar 0 255 0) 1"

text \<open>
  One iteration, for one contour; \<open>visualResult\<close> is the address of the copy
  drawn on. The aspect ratio is computed for every contour, before the test.
\<close>

definition loop_body :: "ext \<Rightarrow> addr \<Rightarrow> loop_state \<Rightarrow> Point list \<Rightarrow> loop_state" where
  "loop_body cv visualResult st contour =
     (let r = boundingRect cv contour;
          area = contourArea cv contour;
          aspectRatio = aspectRatio_of r
      in if isValidLightBar area aspectRatio r
         then
           let valid = validLightBars st @ [r]
           in \<lparr>validLightBars = valid,
               bufs = (bufs st)[visualResult :=
                        annotate cv (bufs st ! visualResult) r area aspectRatio],
               cout = cout st @
                        [ValidLightBar (length valid) area aspectRatio (rect_x r) (rect_y r)]\<rparr>
         else st)"

fun contour_loop :: "ext \<Rightarrow> addr \<Rightarrow> loop_state \<Rightarrow> Point list list \<Rightarrow> loop_state" where
  "contour_loop cv visualResult st [] = st"
| "contour_loop cv visualResult st (c # cs) =
     contour_loop cv visualResult (loop_body cv visualResult st c) cs"

text \<open>
  What a call leaves behind: the returned header, the caller's \<open>visualResult\<close>
  (both the address of the annotated copy), the store and the lines printed.
\<close>

record filter_result =
  returned :: addr
  visualResult_out :: addr
  store_out :: store
  cout_out :: "cout_line list"

text \<open>
  Lines 181 to 231, for a non-empty mask: the address given to \<open>visualResult\<close>
  and the locals when the loop ends.
\<close>

definition filter_locals :: "ext \<Rightarrow> addr \<Rightarrow> uchar Mat \<Rightarrow> store \<Rightarrow> addr \<times> loop_state" where
  "filter_locals cv img binaryImage s =
     (let (visualResult, s1) = clone s img;
          contours = findContours cv binaryImage
      in (visualResult,
          contour_loop cv visualResult
            \<lparr>validLightBars = [], bufs = s1, cout = [ContoursFound (length contours)]\<rparr>
            contours))"

text \<open>
  The method, on the object's \<open>image\<close> (here \<open>img\<close>), the mask and the caller's
  \<open>visualResult\<close>, a separate object from the mask. The header passed in
  is overwritten at line 181 before it is read.
\<close>

definition filterLightBars ::
  "ext \<Rightarrow> addr \<Rightarrow> uchar Mat \<Rightarrow> addr \<Rightarrow> store \<Rightarrow> error + filter_result" where
  "filterLightBars cv img binaryImage visualResult s =
     (if Mat_empty binaryImage then Inl (ImageProcessorException MsgBinaryEmpty)
      else
        let (visualResult', st) = filter_locals cv img binaryImage s
        in Inr \<lparr>returned = visualResult', visualResult_out = visualResult',
                store_out = bufs st,
                cout_out = cout st @ [LightBarsFiltered (length (validLightBars st))]\<rparr>)"

subsection \<open>The other methods\<close>

text \<open>
  The constructor: the image read from the path and the line printed, or the
  exception for an image that could not be loaded.
\<close>

definition ImageProcessor :: "ext \<Rightarrow> string \<Rightarrow> error + (Vec3b Mat \<times> cout_line list)" where
  "ImageProcessor cv path =
     (let img = imread cv path
      in if Mat_empty img then Inl (ImageProcessorException (MsgCannotLoad path))
         else Inr (img, [ImageLoaded path]))"

text \<open>\<open>cv::Size\<close> is (width, height).\<close>

definition getImageSize :: "Vec3b Mat \<Rightarrow> error + (nat \<times> nat)" where
  "getImageSize img =
     (if Mat_empty img then Inl (ImageProcessorException MsgImageEmptySize)
      else Inr (cols img, rows img))"

definition getChannels :: "Vec3b Mat \<Rightarrow> error + int" where
  "getChannels img =
     (if Mat_empty img then Inl (ImageProcessorException MsgImageEmptyChannels)
      else Inr 3)"

definition getPixelData :: "store \<Rightarrow> addr \<Rightarrow> error + (addr \<times> store)" where
  "getPixelData s img =
     (if Mat_empty (s ! img) then Inl (ImageProcessorException MsgImageEmptyPixelData)
      else Inr (clone s img))"

definition convertToGray :: "ext \<Rightarrow> Vec3b Mat \<Rightarrow> error + uchar Mat" where
  "convertToGray cv img =
     (if Mat_empty img then Inl (ImageProcessorException MsgImageEmptyGray)
      else Inr \<lparr>rows = rows img, cols = cols img,
                elems = map (cvtColor_BGR2GRAY cv) (elems img)\<rparr>)"

text \<open>
  \<open>kernelSize % 2\<close> is read only for a positive \<open>kernelSize\<close>, where the
  truncating remainder of C++ is \<open>mod\<close>.
\<close>

definition applyMeanBlur :: "ext \<Rightarrow> Vec3b Mat \<Rightarrow> int \<Rightarrow> error + Vec3b Mat" where
  "applyMeanBlur cv img kernelSize =
     (if Mat_empty img then Inl (ImageProcessorException MsgImageEmptyMeanBlur)
      else if kernelSize \<le> 0 \<or> kernelSize mod 2 = 0
      then Inl (ImageProcessorException MsgKernelSize)
      else Inr (blur cv img (kernelSize, kernelSize)))"

definition applyGaussianBlur :: "ext \<Rightarrow> Vec3b Mat \<Rightarrow> int \<Rightarrow> rat \<Rightarrow> error + Vec3b Mat" where
  "applyGaussianBlur cv img kernelSize sigmaX =
     (if Mat_empty img then Inl (ImageProcessorException MsgImageEmptyGaussianBlur)
      else if kernelSize \<le> 0 \<or> kernelSize mod 2 = 0
      then Inl (ImageProcessorException MsgKernelSize)
      else Inr (GaussianBlur cv img (kernelSize, kernelSize) sigmaX))"

definition displayImageInfo :: "Vec3b Mat \<Rightarrow> string \<Rightarrow> error + cout_line list" where
  "displayImageInfo img imagePath =
     (if Mat_empty img then Inr [InfoEmpty]
      else case getImageSize img of
             Inl e \<Rightarrow> Inl e
           | Inr (w, h) \<Rightarrow>
               (case getChannels img of
                  Inl e \<Rightarrow> Inl e
                | Inr ch \<Rightarrow>
                    Inr [InfoHeading, InfoPath imagePath, InfoSize w h, InfoChannels ch,
                         InfoPixels (of_nat w * of_nat h)]))"

subsection \<open>main\<close>

text \<open>
  What a run of \<open>main\<close> does outside the process, in order: lines on
  \<open>std::cout\<close>, the line on \<open>std::cerr\<close> for a caught exception, windows
  created and images shown in them, files written, the wait for a key and the
  closing of the windows. An image shown or written is recorded with its pixels
  at that moment. The windows are named, in the source's order: original image,
  grey image, mean blur, light-bar mask, detection result.
\<close>

datatype window = WinOriginal | WinGray | WinMeanBlur | WinMask | WinResult

datatype picture = GrayMat "uchar Mat" | ColorMat "Vec3b Mat"

datatype event =
    Cout cout_line
  | Cerr error
  | NamedWindow window
  | Imshow window picture
  | Imwrite string picture
  | WaitKey
  | DestroyAllWindows

text \<open>
  A part of the \<open>try\<close> block: the events it caused, and its value or the
  exception that ended it. \<open>then_do\<close> runs a part and, unless it threw, the
  rest of the block on its value.
\<close>

type_synonym 'a part = "event list \<times> (error + 'a)"

definition then_do :: "'a part \<Rightarrow> ('a \<Rightarrow> 'b part) \<Rightarrow> 'b part" where
  "then_do m f =
     (case m of
        (es, Inl e) \<Rightarrow> (es, Inl e)
      | (es, Inr v) \<Rightarrow> (case f v of (es', r) \<Rightarrow> (es @ es', r)))"

definition say :: "cout_line list \<Rightarrow> unit part" where
  "say ls = (map Cout ls, Inr ())"

definition emit :: "event list \<Rightarrow> unit part" where
  "emit es = (es, Inr ())"

text \<open>A method that prints nothing, and one that returns its lines with its value.\<close>

definition quiet :: "error + 'a \<Rightarrow> 'a part" where
  "quiet r = ([], r)"

definition printing :: "error + ('a \<times> cout_line list) \<Rightarrow> 'a part" where
  "printing r = (case r of Inl e \<Rightarrow> ([], Inl e) | Inr (v, ls) \<Rightarrow> (map Cout ls, Inr v))"

text \<open>
  The call of \<open>filterLightBars\<close> from \<open>main\<close>: the lines it printed, and
  the address and the store it left.
\<close>

definition filtering :: "error + filter_result \<Rightarrow> (addr \<times> store) part" where
  "filtering r =
     (case r of
        Inl e \<Rightarrow> ([], Inl e)
      | Inr res \<Rightarrow> (map Cout (cout_out res), Inr (visualResult_out res, store_out res)))"

text \<open>
  Lines 259 to 325, the \<open>try\<close> block. The store starts with the processor's
  image at address 0; \<open>visualResult\<close>, declared empty at line 290, is the
  address 1.
\<close>

definition main_try :: "ext \<Rightarrow> unit part" where
  "main_try cv =
     then_do (say [MainHeading]) (\<lambda>_.
     then_do (printing (ImageProcessor cv ''hero.png'')) (\<lambda>img.
     then_do (then_do (quiet (displayImageInfo img ''hero.png'')) say) (\<lambda>_.
     then_do (say [PreprocessHeading]) (\<lambda>_.
     then_do (quiet (convertToGray cv img)) (\<lambda>grayImage.
     then_do (say [GrayDone]) (\<lambda>_.
     then_do (quiet (applyMeanBlur cv img 5)) (\<lambda>blurredImage.
     then_do (say [MeanBlurDone]) (\<lambda>_.
     then_do (quiet (applyGaussianBlur cv img 5 1)) (\<lambda>gaussianBlurred.
     then_do (say [GaussianBlurDone, DetectHeading]) (\<lambda>_.
     then_do (printing (extractLightBars cv img)) (\<lambda>lightBarMask.
     then_do (say [FilterHeading]) (\<lambda>_.
     then_do (filtering (filterLightBars cv 0 lightBarMask 1
                [img, \<lparr>rows = 0, cols = 0, elems = []\<rparr>])) (\<lambda>(visualResult, s).
     then_do (say [ShowHeading]) (\<lambda>_.
     then_do (quiet (getPixelData s 0)) (\<lambda>(pixelData, s').
     then_do (emit
       [NamedWindow WinOriginal, Imshow WinOriginal (ColorMat (s' ! pixelData)),
        NamedWindow WinGray, Imshow WinGray (GrayMat grayImage),
        NamedWindow WinMeanBlur, Imshow WinMeanBlur (ColorMat blurredImage),
        NamedWindow WinMask, Imshow WinMask (GrayMat lightBarMask),
        NamedWindow WinResult, Imshow WinResult (ColorMat (s' ! visualResult)),
        Imwrite ''output_gray.jpg'' (GrayMat grayImage),
        Imwrite ''output_blur.jpg'' (ColorMat blurredImage),
        Imwrite ''output_lightbar_mask.jpg'' (GrayMat lightBarMask),
        Imwrite ''output_result.jpg'' (ColorMat (s' ! visualResult))]) (\<lambda>_.
     then_do (say [ResultsSaved, PressAnyKey]) (\<lambda>_.
     emit [WaitKey, DestroyAllWindows])))))))))))))))))"

text \<open>
  \<open>main\<close>: the events of the run and the exit status. Each of the three
  handlers writes the exception's text to \<open>std::cerr\<close> and returns -1.
\<close>

record main_result =
  events :: "event list"
  exit_status :: int

definition main :: "ext \<Rightarrow> main_result" where
  "main cv =
     (case main_try cv of
        (es, Inl e) \<Rightarrow> \<lparr>events = es @ [Cerr e], exit_status = - 1\<rparr>
      | (es, Inr _) \<Rightarrow> \<lparr>events = es, exit_status = 0\<rparr>)"

text \<open>The lines \<open>displayImageInfo\<close> prints for the loaded image.\<close>

definition info_lines :: "Vec3b Mat \<Rightarrow> cout_line list" where
  "info_lines img =
     [InfoHeading, InfoPath ''hero.png'', InfoSize (cols img) (rows img), InfoChannels 3,
      InfoPixels (of_nat (cols img) * of_nat (rows img))]"

text \<open>The line that ends a call of \<open>extractLightBars\<close>.\<close>

fun is_extracted :: "event \<Rightarrow> bool" where
  "is_extracted (Cout LightBarsExtracted) = True"
| "is_extracted _ = False"

text \<open>The events that hand an image to the display or to a file.\<close>

fun is_output :: "event \<Rightarrow> bool" where
  "is_output (Imshow w p) = True"
| "is_output (Imwrite f p) = True"
| "is_output _ = False"

subsection \<open>The test and the drawing as functions of a contour\<close>

text \<open>The value of \<open>isValidLightBar\<close> in the iteration for a contour.\<close>

definition accepts :: "ext \<Rightarrow> Point list \<Rightarrow> bool" where
  "accepts cv contour =
     isValidLightBar (contourArea cv contour)
       (aspectRatio_of (boundingRect cv contour)) (boundingRect cv contour)"

text \<open>The line printed for the \<open>k\<close>-th accepted contour.\<close>

definition summary :: "ext \<Rightarrow> nat \<Rightarrow> Point list \<Rightarrow> cout_line" where
  "summary cv k contour =
     ValidLightBar k (contourArea cv contour) (aspectRatio_of (boundingRect cv contour))
       (rect_x (boundingRect cv contour)) (rect_y (boundingRect cv contour))"

text \<open>The drawing made for an accepted contour.\<close>

definition draw :: "ext \<Rightarrow> Vec3b Mat \<Rightarrow> Point list \<Rightarrow> Vec3b Mat" where
  "draw cv pixels contour =
     annotate cv pixels (boundingRect cv contour) (contourArea cv contour)
       (aspectRatio_of (boundingRect cv contour))"

fun is_summary :: "cout_line \<Rightarrow> bool" where
  "is_summary (ValidLightBar k a ar px py) = True"
| "is_summary _ = False"

subsection \<open>The test, step by step\<close>

text \<open>
  The operations of lines 201 to 210 in the order in which they are carried out:
  the division of line 201, with its operands and its quotient, and then the
  comparisons of the \<open>&&\<close> chain, each with its outcome. The chain stops at the
  first comparison that is false and evaluates none after it.
\<close>

datatype test = AreaMin | AreaMax | RatioMin | RatioMax | MinWidth | MinHeight

datatype step = Division int int double | Test test bool

fun and_chain :: "(test \<times> bool) list \<Rightarrow> step list \<times> bool" where
  "and_chain [] = ([], True)"
| "and_chain ((t, b) # ts) =
     (if b then (Test t True # fst (and_chain ts), snd (and_chain ts))
      else ([Test t False], False))"

definition classify_steps :: "double \<Rightarrow> Rect \<Rightarrow> step list \<times> bool" where
  "classify_steps area r =
     (let aspectRatio = double_div_int (sint (height r)) (sint (width r));
          chain = and_chain
            [(AreaMin, dless (Finite 50) area),
             (AreaMax, dless area (Finite 5000)),
             (RatioMin, dless (Finite (3 / 2)) aspectRatio),
             (RatioMax, dless aspectRatio (Finite 8)),
             (MinWidth, 3 <s width r),
             (MinHeight, 10 <s height r)]
      in (Division (sint (height r)) (sint (width r)) aspectRatio # fst chain, snd chain))"

fun divides_by_zero :: "step \<Rightarrow> bool" where
  "divides_by_zero (Division h w q) = (w = 0)"
| "divides_by_zero (Test t b) = False"

fun reads_box_size :: "step \<Rightarrow> bool" where
  "reads_box_size (Test MinWidth b) = True"
| "reads_box_size (Test MinHeight b) = True"
| "reads_box_size _ = False"

subsection \<open>A small instance of the external functions\<close>

text \<open>
  Every file decodes to the same two pixels, which are taken as they are for
  their HSV values; a contour is given by two corners of its box; its area is
  the box's; drawing a rectangle paints every pixel green; the other functions
  do nothing.
\<close>

fun demo_boundingRect :: "Point list \<Rightarrow> Rect" where
  "demo_boundingRect [p, q] =
     \<lparr>rect_x = pt_x p, rect_y = pt_y p, width = pt_x q - pt_x p, height = pt_y q - pt_y p\<rparr>"
| "demo_boundingRect _ = \<lparr>rect_x = 0, rect_y = 0, width = 0, height = 0\<rparr>"

definition demo_contourArea :: "Point list \<Rightarrow> double" where
  "demo_contourArea ps =
     Finite (of_int (sint (width (demo_boundingRect ps)) * sint (height (demo_boundingRect ps))))"

definition demo_contours :: "Point list list" where
  "demo_contours =
     [[\<lparr>pt_x = 2, pt_y = 2\<rparr>, \<lparr>pt_x = 8, pt_y = 32\<rparr>],
      [\<lparr>pt_x = 20, pt_y = 20\<rparr>, \<lparr>pt_x = 40, pt_y = 42\<rparr>],
      [\<lparr>pt_x = 50, pt_y = 5\<rparr>, \<lparr>pt_x = 50, pt_y = 17\<rparr>],
      [\<lparr>pt_x = 60, pt_y = 10\<rparr>, \<lparr>pt_x = 70, pt_y = 26\<rparr>]]"

definition demo_ext :: ext where
  "demo_ext =
     \<lparr>imread = (\<lambda>path. \<lparr>rows = 1, cols = 2, elems = [(5, 200, 200), (7, 7, 7)]\<rparr>),
      cvtColor_BGR2GRAY = (\<lambda>p. fst p),
      blur = (\<lambda>m k. m),
      GaussianBlur = (\<lambda>m k sg. m),
      cvtColor_BGR2HSV = (\<lambda>p. p),
      erode = (\<lambda>k m. m),
      dilate = (\<lambda>k m. m),
      findContours = (\<lambda>m. demo_contours),
      boundingRect = demo_boundingRect,
      contourArea = demo_contourArea,
      rectangle = (\<lambda>m r c t. m\<lparr>elems := map (\<lambda>p. (0, 255, 0)) (elems m)\<rparr>),
      putText = (\<lambda>m t p f sc c th. m),
      to_string_int = (\<lambda>n. []),
      to_string_double = (\<lambda>d. [])\<rparr>"

text \<open>
  A second instance, in which each pass of the morphology leaves a mark: an
  erosion adds the number of elements of the structuring element to every
  pixel, a dilation doubles every pixel, and contours are found only in the
  mask that one open and one close make of the two pixels 255 and 0.
\<close>

definition marking_ext :: ext where
  "marking_ext =
     demo_ext
       \<lparr>erode := (\<lambda>k m. m\<lparr>elems := map (\<lambda>v. v + of_nat (length (elems k))) (elems m)\<rparr>),
        dilate := (\<lambda>k m. m\<lparr>elems := map (\<lambda>v. 2 * v) (elems m)\<rparr>),
        findContours := (\<lambda>m. if elems m = [41, 45] then demo_contours else [])\<rparr>"

definition demo_image :: "Vec3b Mat" where
  "demo_image = \<lparr>rows = 1, cols = 2, elems = [(5, 200, 200), (7, 7, 7)]\<rparr>"

definition demo_mask :: "uchar Mat" where
  "demo_mask = \<lparr>rows = 1, cols = 2, elems = [255, 0]\<rparr>"

section \<open>Properties\<close>

subsection \<open>Rounding to a double\<close>

lemma pow2_pos: "0 < pow2 e"
  by (simp add: pow2_def)

lemma pow2_add: "pow2 (a + b) = pow2 a * pow2 b"
proof -
  have "pow2 e = 2 powi e" for e
    by (simp add: pow2_def power_int_def field_simps)
  then show ?thesis by (simp add: power_int_add)
qed

lemma round_half_even_err: "\<bar>of_int (round_half_even q) - q\<bar> \<le> 1 / 2"
proof -
  have f: "of_int \<lfloor>q\<rfloor> \<le> q" "q < of_int \<lfloor>q\<rfloor> + 1" by linarith+
  show ?thesis
    unfolding round_half_even_def Let_def using f
    by (auto simp: abs_le_iff)
qed

lemma ilog2_bounds:
  assumes "0 < v"
  shows "pow2 (ilog2 v) \<le> v" and "v < pow2 (ilog2 v + 1)"
proof -
  obtain p q where pq: "quotient_of v = (p, q)" by (cases "quotient_of v")
  have q: "0 < q" using pq quotient_of_denom_pos by blast
  have v: "v = of_int p / of_int q" using pq quotient_of_div by blast
  have p: "0 < p" using assms q v by (simp add: zero_less_divide_iff)
  define d where "d = bitlen p - bitlen q"
  have bp1: "1 \<le> bitlen p" using p bitlen_eq_zero_iff[of p] bitlen_nonneg[of p] by linarith
  have bq1: "1 \<le> bitlen q" using q bitlen_eq_zero_iff[of q] bitlen_nonneg[of q] by linarith
  have of_pow: "(of_int (2 ^ nat k) :: rat) = pow2 k" if "0 \<le> k" for k
    using that by (simp add: pow2_def)
  have P1: "pow2 (bitlen p - 1) \<le> of_int p"
    using bitlen_bounds[OF p] of_pow[of "bitlen p - 1"] bp1
    by (metis diff_ge_0_iff_ge of_int_le_iff)
  have P2: "of_int p < pow2 (bitlen p)"
    using bitlen_bounds[OF p] of_pow[of "bitlen p"] bp1
    by (metis bitlen_nonneg of_int_less_iff)
  have Q1: "pow2 (bitlen q - 1) \<le> of_int q"
    using bitlen_bounds[OF q] of_pow[of "bitlen q - 1"] bq1
    by (metis diff_ge_0_iff_ge of_int_le_iff)
  have Q2: "of_int q < pow2 (bitlen q)"
    using bitlen_bounds[OF q] of_pow[of "bitlen q"] bq1
    by (metis bitlen_nonneg of_int_less_iff)
  have lo: "pow2 (d - 1) \<le> v"
  proof -
    have "pow2 (d - 1) * of_int q \<le> pow2 (d - 1) * pow2 (bitlen q)"
      using Q2 pow2_pos[of "d - 1"] by (simp add: mult_left_mono)
    also have "\<dots> = pow2 (bitlen p - 1)"
      by (simp add: pow2_add[symmetric] d_def)
    also have "\<dots> \<le> of_int p" by (rule P1)
    finally show ?thesis using q by (simp add: v pos_le_divide_eq)
  qed
  have hi: "v < pow2 (d + 1)"
  proof -
    have "of_int p < pow2 (bitlen p)" by (rule P2)
    also have "\<dots> = pow2 (d + 1) * pow2 (bitlen q - 1)"
      by (simp add: pow2_add[symmetric] d_def)
    also have "\<dots> \<le> pow2 (d + 1) * of_int q"
      using Q1 pow2_pos[of "d + 1"] by (simp add: mult_left_mono)
    finally show ?thesis using q by (simp add: v pos_divide_less_eq)
  qed
  show "pow2 (ilog2 v) \<le> v"
    using lo by (cases "pow2 d \<le> v") (simp_all add: ilog2_def pq d_def)
  show "v < pow2 (ilog2 v + 1)"
    using hi by (cases "pow2 d \<le> v") (simp_all add: ilog2_def pq d_def)
qed

lemma round_double_err: "\<bar>round_double v - v\<bar> \<le> \<bar>v\<bar> / 2 ^ 53"
proof (cases "v = 0")
  case True
  then show ?thesis by (simp add: round_double_def)
next
  case False
  define e where "e = ilog2 \<bar>v\<bar>"
  define u where "u = pow2 (e - 52)"
  have u: "0 < u" by (simp add: u_def pow2_pos)
  have r: "round_double v = of_int (round_half_even (v / u)) * u"
    using False by (simp add: round_double_def u_def e_def Let_def)
  have "\<bar>round_double v - v\<bar> = \<bar>of_int (round_half_even (v / u)) - v / u\<bar> * u"
  proof -
    have "round_double v - v = (of_int (round_half_even (v / u)) - v / u) * u"
      using u by (simp add: r left_diff_distrib)
    then show ?thesis using u by (simp add: abs_mult)
  qed
  also have "\<dots> \<le> 1 / 2 * u"
    using round_half_even_err[of "v / u"] u by (simp add: mult_right_mono del: times_divide_eq_left)
  also have "\<dots> = pow2 e / 2 ^ 53"
  proof -
    have "pow2 e = pow2 (e - 52) * pow2 52" by (simp add: pow2_add[symmetric])
    then show ?thesis by (simp add: u_def pow2_def[of 52])
  qed
  also have "\<dots> \<le> \<bar>v\<bar> / 2 ^ 53"
    using ilog2_bounds(1)[of "\<bar>v\<bar>"] False by (simp add: e_def divide_right_mono)
  finally show ?thesis .
qed

lemma round_double_3_2: "round_double (3 / 2) = 3 / 2"
  by code_simp

lemma round_double_8: "round_double 8 = 8"
  by code_simp

lemma quot_gap:
  fixes a b w :: int
  assumes w: "0 < w" "w < 2 ^ 31" and d: "a < b"
  shows "(of_int a :: rat) / of_int w + 1 / 2 ^ 31 \<le> of_int b / of_int w"
proof -
  have "a + 1 \<le> b" using d by simp
  then have "(of_int a + 1 :: rat) \<le> of_int b" by (metis of_int_1 of_int_add of_int_le_iff)
  then have "(of_int a + 1 :: rat) / of_int w \<le> of_int b / of_int w"
    using w by (simp add: divide_right_mono)
  moreover have "(1 :: rat) / 2 ^ 31 \<le> 1 / of_int w"
  proof -
    have "(of_int w :: rat) \<le> of_int (2 ^ 31)" using w by (simp only: of_int_le_iff)
    then show ?thesis using w by (simp add: frac_le)
  qed
  ultimately show ?thesis by (simp add: add_divide_distrib)
qed

lemma round_double_gt_3_2:
  fixes h w :: int
  assumes w: "0 < w" "w < 2 ^ 31"
  shows "3 / 2 < round_double (of_int h / of_int w) \<longleftrightarrow> 3 * w < 2 * h"
proof -
  define v :: rat where "v = of_int h / of_int w"
  have v2: "2 * v = of_int (2 * h) / of_int w" by (simp add: v_def)
  have c3: "(3 :: rat) = of_int (3 * w) / of_int w" using w by simp
  have err: "\<bar>round_double v - v\<bar> \<le> \<bar>v\<bar> / 2 ^ 53" by (rule round_double_err)
  consider "3 * w < 2 * h" | "3 * w = 2 * h" | "2 * h < 3 * w" by linarith
  then show ?thesis
  proof cases
    case 1
    have "3 + 1 / 2 ^ 31 \<le> 2 * v"
      using quot_gap[OF w 1] by (simp only: v2 c3[symmetric])
    then have "3 / 2 < round_double v" using err by (auto simp: abs_if split: if_splits)
    then show ?thesis using 1 by (simp add: v_def)
  next
    case 2
    then have "2 * v = of_int (3 * w) / of_int w" by (simp only: v2)
    also have "\<dots> = 3" by (rule c3[symmetric])
    finally have "v = 3 / 2" by simp
    then have "round_double v = 3 / 2" by (simp only: round_double_3_2)
    then show ?thesis using 2 by (simp add: v_def)
  next
    case 3
    have "2 * v + 1 / 2 ^ 31 \<le> 3"
      using quot_gap[OF w 3] by (simp only: v2 c3[symmetric])
    then have "round_double v < 3 / 2" using err by (auto simp: abs_if split: if_splits)
    then show ?thesis using 3 by (simp add: v_def)
  qed
qed

lemma round_double_lt_8:
  fixes h w :: int
  assumes w: "0 < w" "w < 2 ^ 31"
  shows "round_double (of_int h / of_int w) < 8 \<longleftrightarrow> h < 8 * w"
proof -
  define v :: rat where "v = of_int h / of_int w"
  have c8: "(8 :: rat) = of_int (8 * w) / of_int w" using w by simp
  have err: "\<bar>round_double v - v\<bar> \<le> \<bar>v\<bar> / 2 ^ 53" by (rule round_double_err)
  consider "h < 8 * w" | "h = 8 * w" | "8 * w < h" by linarith
  then show ?thesis
  proof cases
    case 1
    have "v + 1 / 2 ^ 31 \<le> 8"
      using quot_gap[OF w 1] by (simp only: v_def c8[symmetric])
    then have "round_double v < 8" using err by (auto simp: abs_if split: if_splits)
    then show ?thesis using 1 by (simp add: v_def)
  next
    case 2
    then have "v = of_int (8 * w) / of_int w" by (simp only: v_def)
    also have "\<dots> = 8" by (rule c8[symmetric])
    finally have "v = 8" .
    then have "round_double v = 8" by (simp only: round_double_8)
    then show ?thesis using 2 by (simp add: v_def)
  next
    case 3
    have "8 + 1 / 2 ^ 31 \<le> v"
      using quot_gap[OF w 3] by (simp only: v_def c8[symmetric])
    then have "8 < round_double v" using err by (auto simp: abs_if split: if_splits)
    then show ?thesis using 3 by (simp add: v_def)
  qed
qed

subsection \<open>The acceptance test\<close>

lemma sint32_lt: "sint (w :: 32 word) < 2 ^ 31"
  using sint_lt[of w] by simp

lemma sless_3: "(3 <s (w :: 32 word)) = (3 < sint w)"
  by (simp add: word_sless_alt)

lemma sless_10: "(10 <s (w :: 32 word)) = (10 < sint w)"
  by (simp add: word_sless_alt)

lemma dless_area: "(dless (Finite 50) area \<and> dless area (Finite 5000)) =
    (\<exists>a. area = Finite a \<and> 50 < a \<and> a < 5000)"
  by (cases area) auto

lemma exact_ratio:
  fixes h w :: int
  assumes "0 < w"
  shows "(3 / 2 < (of_int h / of_int w :: rat)) = (3 * w < 2 * h)"
    and "((of_int h / of_int w :: rat) < 8) = (h < 8 * w)"
proof -
  have "(3 / 2 < (of_int h / of_int w :: rat)) = ((of_int (3 * w) :: rat) < of_int (2 * h))"
    using assms by (simp add: pos_less_divide_eq mult.commute)
  then show "(3 / 2 < (of_int h / of_int w :: rat)) = (3 * w < 2 * h)"
    by (simp only: of_int_less_iff)
  have "((of_int h / of_int w :: rat) < 8) = ((of_int h :: rat) < of_int (8 * w))"
    using assms by (simp add: pos_divide_less_eq mult.commute)
  then show "((of_int h / of_int w :: rat) < 8) = (h < 8 * w)"
    by (simp only: of_int_less_iff)
qed

lemma isValidLightBar_iff:
  "isValidLightBar area (aspectRatio_of r) r =
     ((\<exists>a. area = Finite a \<and> 50 < a \<and> a < 5000) \<and>
      3 * sint (width r) < 2 * sint (height r) \<and>
      sint (height r) < 8 * sint (width r) \<and>
      3 < sint (width r) \<and> 10 < sint (height r))"
proof (cases "3 < sint (width r)")
  case False
  then show ?thesis by (simp add: isValidLightBar_def sless_3)
next
  case True
  then have w: "0 < sint (width r)" "sint (width r) < 2 ^ 31"
    using sint32_lt[of "width r"] by simp_all
  have ar: "aspectRatio_of r =
      Finite (round_double (of_int (sint (height r)) / of_int (sint (width r))))"
    using w by (simp add: aspectRatio_of_def double_div_int_def)
  show ?thesis
    unfolding isValidLightBar_def ar dless.simps sless_3 sless_10
      round_double_gt_3_2[OF w] round_double_lt_8[OF w]
    using dless_area[of area] by blast
qed

text \<open>
  C1. The classifier accepts a contour exactly when its area is a number strictly
  between 50 and 5000, the exact quotient of the bounding box's height by its
  width is strictly between 1.5 and 8, the width exceeds 3 and the height
  exceeds 10. The rounding of the division never moves a quotient across 1.5 or
  8. At the boundaries: areas 50 and 5000 and ratios 15/10 and 80/10 are
  rejected, areas 51 and 4999 and ratios 16/10 and 79/10 are accepted.
\<close>

theorem classifier_accepts_iff:
  "isValidLightBar area (aspectRatio_of r) r \<longleftrightarrow>
     (\<exists>a. area = Finite a \<and> 50 < a \<and> a < 5000) \<and>
     3 / 2 < (of_int (sint (height r)) / of_int (sint (width r)) :: rat) \<and>
     (of_int (sint (height r)) / of_int (sint (width r)) :: rat) < 8 \<and>
     3 < sint (width r) \<and> 10 < sint (height r)"
proof (cases "3 < sint (width r)")
  case False
  then show ?thesis by (simp add: isValidLightBar_iff)
next
  case True
  then have w: "0 < sint (width r)" by simp
  show ?thesis
    unfolding isValidLightBar_iff exact_ratio[OF w] by blast
qed

theorem classifier_accepts_iff_witness:
  "\<not> isValidLightBar (Finite 50) (aspectRatio_of \<lparr>rect_x = 0, rect_y = 0, width = 6, height = 30\<rparr>)
        \<lparr>rect_x = 0, rect_y = 0, width = 6, height = 30\<rparr> \<and>
   \<not> isValidLightBar (Finite 5000) (aspectRatio_of \<lparr>rect_x = 0, rect_y = 0, width = 6, height = 30\<rparr>)
        \<lparr>rect_x = 0, rect_y = 0, width = 6, height = 30\<rparr> \<and>
   isValidLightBar (Finite 51) (aspectRatio_of \<lparr>rect_x = 0, rect_y = 0, width = 6, height = 30\<rparr>)
        \<lparr>rect_x = 0, rect_y = 0, width = 6, height = 30\<rparr> \<and>
   isValidLightBar (Finite 4999) (aspectRatio_of \<lparr>rect_x = 0, rect_y = 0, width = 6, height = 30\<rparr>)
        \<lparr>rect_x = 0, rect_y = 0, width = 6, height = 30\<rparr> \<and>
   \<not> isValidLightBar (Finite 180) (aspectRatio_of \<lparr>rect_x = 0, rect_y = 0, width = 10, height = 15\<rparr>)
        \<lparr>rect_x = 0, rect_y = 0, width = 10, height = 15\<rparr> \<and>
   \<not> isValidLightBar (Finite 180) (aspectRatio_of \<lparr>rect_x = 0, rect_y = 0, width = 10, height = 80\<rparr>)
        \<lparr>rect_x = 0, rect_y = 0, width = 10, height = 80\<rparr> \<and>
   isValidLightBar (Finite 180) (aspectRatio_of \<lparr>rect_x = 0, rect_y = 0, width = 10, height = 16\<rparr>)
        \<lparr>rect_x = 0, rect_y = 0, width = 10, height = 16\<rparr> \<and>
   isValidLightBar (Finite 180) (aspectRatio_of \<lparr>rect_x = 0, rect_y = 0, width = 10, height = 79\<rparr>)
        \<lparr>rect_x = 0, rect_y = 0, width = 10, height = 79\<rparr>"
  by (simp add: classifier_accepts_iff)


subsection \<open>The loop over the contours\<close>

lemma loop_body_accepts:
  "loop_body cv vr st c =
     (if accepts cv c
      then \<lparr>validLightBars = validLightBars st @ [boundingRect cv c],
            bufs = (bufs st)[vr := draw cv (bufs st ! vr) c],
            cout = cout st @ [summary cv (Suc (length (validLightBars st))) c]\<rparr>
      else st)"
  by (simp add: loop_body_def accepts_def draw_def summary_def Let_def)

lemma contour_loop_validLightBars:
  "validLightBars (contour_loop cv vr st cs) =
     validLightBars st @ map (boundingRect cv) (filter (accepts cv) cs)"
  by (induction cs arbitrary: st) (simp_all add: loop_body_accepts)

lemma contour_loop_cout:
  "cout (contour_loop cv vr st cs) =
     cout st @ map (\<lambda>(i, c). summary cv (Suc i) c)
                 (enumerate (length (validLightBars st)) (filter (accepts cv) cs))"
  by (induction cs arbitrary: st) (simp_all add: loop_body_accepts)

lemma contour_loop_bufs:
  "vr < length (bufs st) \<Longrightarrow>
   bufs (contour_loop cv vr st cs) =
     (bufs st)[vr := foldl (draw cv) (bufs st ! vr) (filter (accepts cv) cs)]"
  by (induction cs arbitrary: st) (simp_all add: loop_body_accepts)

lemma filter_locals_eq:
  "filter_locals cv img bin s =
     (length s,
      \<lparr>validLightBars = map (boundingRect cv) (filter (accepts cv) (findContours cv bin)),
       bufs = s @ [foldl (draw cv) (s ! img) (filter (accepts cv) (findContours cv bin))],
       cout = ContoursFound (length (findContours cv bin)) #
              map (\<lambda>(i, c). summary cv (Suc i) c)
                (enumerate 0 (filter (accepts cv) (findContours cv bin)))\<rparr>)"
proof -
  let ?st0 = "\<lparr>validLightBars = [], bufs = s @ [s ! img],
               cout = [ContoursFound (length (findContours cv bin))]\<rparr>"
  let ?st = "contour_loop cv (length s) ?st0 (findContours cv bin)"
  have fl: "filter_locals cv img bin s = (length s, ?st)"
    by (simp add: filter_locals_def clone_def Let_def)
  have "?st = \<lparr>validLightBars = validLightBars ?st, bufs = bufs ?st, cout = cout ?st\<rparr>"
    by simp
  also have "validLightBars ?st = map (boundingRect cv) (filter (accepts cv) (findContours cv bin))"
    by (simp add: contour_loop_validLightBars)
  also have "bufs ?st = s @ [foldl (draw cv) (s ! img) (filter (accepts cv) (findContours cv bin))]"
    by (simp add: contour_loop_bufs)
  also have "cout ?st = ContoursFound (length (findContours cv bin)) #
              map (\<lambda>(i, c). summary cv (Suc i) c)
                (enumerate 0 (filter (accepts cv) (findContours cv bin)))"
    by (simp add: contour_loop_cout)
  finally show ?thesis using fl by simp
qed

lemma filterLightBars_eq:
  "filterLightBars cv img bin vr s =
     (if Mat_empty bin then Inl (ImageProcessorException MsgBinaryEmpty)
      else Inr \<lparr>returned = length s, visualResult_out = length s,
             store_out = s @ [foldl (draw cv) (s ! img) (filter (accepts cv) (findContours cv bin))],
             cout_out = ContoursFound (length (findContours cv bin)) #
               map (\<lambda>(i, c). summary cv (Suc i) c)
                 (enumerate 0 (filter (accepts cv) (findContours cv bin))) @
               [LightBarsFiltered (length (filter (accepts cv) (findContours cv bin)))]\<rparr>)"
  by (simp add: filterLightBars_def filter_locals_eq)

lemma is_summary_summary: "is_summary (summary cv k c)"
  by (simp add: summary_def)

lemma filter_is_summary_map:
  "filter is_summary (map (\<lambda>(i, c). summary cv (Suc i) c) xs) =
     map (\<lambda>(i, c). summary cv (Suc i) c) xs"
  by (induction xs) (auto simp: is_summary_summary)

subsection \<open>The candidates\<close>

lemma double_div_int_zero: "double_div_int h 0 \<in> {PInf, NInf, NaN}"
  by (simp add: double_div_int_def)

lemma demo_accepts:
  "accepts demo_ext [\<lparr>pt_x = 2, pt_y = 2\<rparr>, \<lparr>pt_x = 8, pt_y = 32\<rparr>]"
  "\<not> accepts demo_ext [\<lparr>pt_x = 20, pt_y = 20\<rparr>, \<lparr>pt_x = 40, pt_y = 42\<rparr>]"
  "\<not> accepts demo_ext [\<lparr>pt_x = 50, pt_y = 5\<rparr>, \<lparr>pt_x = 50, pt_y = 17\<rparr>]"
  "accepts demo_ext [\<lparr>pt_x = 60, pt_y = 10\<rparr>, \<lparr>pt_x = 70, pt_y = 26\<rparr>]"
  by (simp_all add: accepts_def demo_ext_def demo_contourArea_def isValidLightBar_iff)

lemma demo_filter:
  "filter (accepts demo_ext) demo_contours =
     [[\<lparr>pt_x = 2, pt_y = 2\<rparr>, \<lparr>pt_x = 8, pt_y = 32\<rparr>],
      [\<lparr>pt_x = 60, pt_y = 10\<rparr>, \<lparr>pt_x = 70, pt_y = 26\<rparr>]]"
  by (simp add: demo_contours_def demo_accepts)

lemma demo_findContours: "findContours demo_ext m = demo_contours"
  by (simp add: demo_ext_def)

lemma demo_boundingRect: "boundingRect demo_ext = demo_boundingRect"
  by (simp add: demo_ext_def)

lemma demo_mask_nonempty: "\<not> Mat_empty demo_mask"
  by (simp add: Mat_empty_def demo_mask_def)

lemma and_chain_snd: "snd (and_chain ts) = list_all snd ts"
  by (induction ts) (auto split: if_splits)

lemma classify_steps_result:
  "snd (classify_steps area r) = isValidLightBar area (aspectRatio_of r) r"
  by (simp add: classify_steps_def Let_def and_chain_snd isValidLightBar_def aspectRatio_of_def)

lemma classify_steps_first:
  "\<exists>ts. fst (classify_steps area r) =
     Division (sint (height r)) (sint (width r)) (aspectRatio_of r) # ts"
  by (simp add: classify_steps_def Let_def aspectRatio_of_def)

lemma zero_width_steps:
  assumes "width r = 0"
  shows "\<exists>ts. fst (classify_steps area r) =
           Division (sint (height r)) 0 (aspectRatio_of r) # ts \<and>
         \<not> list_ex reads_box_size ts \<and>
         last ts \<in> {Test AreaMin False, Test AreaMax False,
                    Test RatioMin False, Test RatioMax False} \<and>
         ((dless (Finite 50) area \<and> dless area (Finite 5000)) \<longrightarrow>
            last ts = Test RatioMin False \<or> last ts = Test RatioMax False)"
proof -
  have q: "aspectRatio_of r = PInf \<or> aspectRatio_of r = NInf \<or> aspectRatio_of r = NaN"
    using assms by (simp add: aspectRatio_of_def double_div_int_def)
  have r: "double_div_int (sint (height r)) 0 = aspectRatio_of r"
    using assms by (simp add: aspectRatio_of_def)
  show ?thesis
    using q unfolding classify_steps_def Let_def assms sint_0 r
    by (cases "dless (Finite 50) area"; cases "dless area (Finite 5000)") auto
qed

text \<open>
  C2, as stated, fails: the source has no guard before the division, and a box
  of width 0 is not rejected before the aspect ratio is computed. For a box of
  width 0 and height 12 with area 100 the first step is the division of 12 by
  0, which gives plus infinity; the comparisons follow, and the contour is
  rejected at \<open>aspectRatio < 8.0\<close>. For the empty box with area 0 the first
  step is the division of 0 by 0.
\<close>

theorem zero_width_division_counterexample:
  "classify_steps (Finite 100) \<lparr>rect_x = 0, rect_y = 0, width = 0, height = 12\<rparr> =
     ([Division 12 0 PInf, Test AreaMin True, Test AreaMax True, Test RatioMin True,
       Test RatioMax False], False) \<and>
   list_ex divides_by_zero
     (fst (classify_steps (Finite 100) \<lparr>rect_x = 0, rect_y = 0, width = 0, height = 12\<rparr>)) \<and>
   classify_steps (Finite 0) \<lparr>rect_x = 0, rect_y = 0, width = 0, height = 0\<rparr> =
     ([Division 0 0 NaN, Test AreaMin False], False) \<and>
   list_ex divides_by_zero
     (fst (classify_steps (Finite 0) \<lparr>rect_x = 0, rect_y = 0, width = 0, height = 0\<rparr>))"
  by (simp add: classify_steps_def double_div_int_def)

text \<open>
  C2, amended. A contour whose bounding box has width 0 is rejected and nothing
  is raised: the iteration leaves the state as it was and the call returns
  normally for any non-empty mask. The rejection comes after the division, not
  before it: the first step divides the height by 0 and gives an infinity or
  NaN, the chain of comparisons then stops at a comparison of the area or of
  the aspect ratio that is false, of the aspect ratio whenever the area lies
  between 50 and 5000, and the width and the height of the box are never
  compared.
\<close>

theorem zero_width_rejected_after_division:
  assumes "width (boundingRect cv c) = 0"
  shows "(\<exists>ts. fst (classify_steps (contourArea cv c) (boundingRect cv c)) =
            Division (sint (height (boundingRect cv c))) 0
              (aspectRatio_of (boundingRect cv c)) # ts \<and>
            \<not> list_ex reads_box_size ts \<and>
            last ts \<in> {Test AreaMin False, Test AreaMax False,
                       Test RatioMin False, Test RatioMax False} \<and>
            ((dless (Finite 50) (contourArea cv c) \<and> dless (contourArea cv c) (Finite 5000)) \<longrightarrow>
               last ts = Test RatioMin False \<or> last ts = Test RatioMax False)) \<and>
         list_ex divides_by_zero (fst (classify_steps (contourArea cv c) (boundingRect cv c))) \<and>
         aspectRatio_of (boundingRect cv c) \<in> {PInf, NInf, NaN} \<and>
         snd (classify_steps (contourArea cv c) (boundingRect cv c)) = accepts cv c \<and>
         \<not> accepts cv c \<and>
         loop_body cv visualResult st c = st \<and>
         (\<not> Mat_empty bin \<longrightarrow> (\<exists>res. filterLightBars cv img bin vr s = Inr res))"
proof -
  have z: "aspectRatio_of (boundingRect cv c) \<in> {PInf, NInf, NaN}"
    using assms double_div_int_zero by (simp add: aspectRatio_of_def)
  have n: "\<not> accepts cv c"
    using assms by (simp add: accepts_def isValidLightBar_def word_sless_alt)
  have d: "list_ex divides_by_zero (fst (classify_steps (contourArea cv c) (boundingRect cv c)))"
    using assms by (simp add: classify_steps_def Let_def)
  have r: "snd (classify_steps (contourArea cv c) (boundingRect cv c)) = accepts cv c"
    by (simp add: classify_steps_result accepts_def)
  show ?thesis
    using zero_width_steps[OF assms, of "contourArea cv c"] z n d r
    by (simp add: loop_body_accepts filterLightBars_eq)
qed

theorem zero_width_rejected_after_division_witness:
  "width (boundingRect (demo_ext\<lparr>contourArea := \<lambda>c. Finite 100\<rparr>)
            [\<lparr>pt_x = 50, pt_y = 5\<rparr>, \<lparr>pt_x = 50, pt_y = 17\<rparr>]) = 0 \<and>
   fst (classify_steps
          (contourArea (demo_ext\<lparr>contourArea := \<lambda>c. Finite 100\<rparr>)
             [\<lparr>pt_x = 50, pt_y = 5\<rparr>, \<lparr>pt_x = 50, pt_y = 17\<rparr>])
          (boundingRect (demo_ext\<lparr>contourArea := \<lambda>c. Finite 100\<rparr>)
             [\<lparr>pt_x = 50, pt_y = 5\<rparr>, \<lparr>pt_x = 50, pt_y = 17\<rparr>])) =
     [Division 12 0 PInf, Test AreaMin True, Test AreaMax True, Test RatioMin True,
      Test RatioMax False] \<and>
   \<not> accepts (demo_ext\<lparr>contourArea := \<lambda>c. Finite 100\<rparr>)
       [\<lparr>pt_x = 50, pt_y = 5\<rparr>, \<lparr>pt_x = 50, pt_y = 17\<rparr>] \<and>
   \<not> Mat_empty demo_mask \<and>
   (\<exists>res. filterLightBars (demo_ext\<lparr>contourArea := \<lambda>c. Finite 100\<rparr>)
            0 demo_mask 0 [demo_image] = Inr res)"
proof -
  let ?cv = "demo_ext\<lparr>contourArea := \<lambda>c. Finite 100\<rparr>"
  let ?c = "[\<lparr>pt_x = 50, pt_y = 5\<rparr>, \<lparr>pt_x = 50, pt_y = 17\<rparr>]"
  have w: "width (boundingRect ?cv ?c) = 0"
    by (simp add: demo_ext_def)
  have t: "fst (classify_steps (contourArea ?cv ?c) (boundingRect ?cv ?c)) =
     [Division 12 0 PInf, Test AreaMin True, Test AreaMax True, Test RatioMin True,
      Test RatioMax False]"
    by (simp add: classify_steps_def demo_ext_def double_div_int_def)
  note u = zero_width_rejected_after_division[OF w,
      where bin = demo_mask and img = 0 and vr = 0 and s = "[demo_image]"]
  have "\<not> accepts ?cv ?c" using u by blast
  moreover have "\<exists>res. filterLightBars ?cv 0 demo_mask 0 [demo_image] = Inr res"
    using u demo_mask_nonempty by blast
  ultimately show ?thesis
    using w t demo_mask_nonempty by blast
qed

text \<open>
  C3. The rectangles pushed onto \<open>validLightBars\<close> are those of the accepted
  contours in the order of the contour list, and the summary lines printed are
  those of the same contours in the same order, numbered from 1.
\<close>

theorem candidates_in_contour_order:
  assumes "filterLightBars cv img bin vr s = Inr res"
  shows "validLightBars (snd (filter_locals cv img bin s)) =
           map (boundingRect cv) (filter (accepts cv) (findContours cv bin)) \<and>
         filter is_summary (cout_out res) =
           map (\<lambda>(i, c). summary cv (Suc i) c)
             (enumerate 0 (filter (accepts cv) (findContours cv bin)))"
  using assms
  by (auto simp: filter_locals_eq filterLightBars_eq filter_is_summary_map split: if_splits)

theorem candidates_in_contour_order_witness:
  "(\<exists>res. filterLightBars demo_ext 0 demo_mask 0 [demo_image] = Inr res \<and>
      filter is_summary (cout_out res) =
        [summary demo_ext 1 [\<lparr>pt_x = 2, pt_y = 2\<rparr>, \<lparr>pt_x = 8, pt_y = 32\<rparr>],
         summary demo_ext 2 [\<lparr>pt_x = 60, pt_y = 10\<rparr>, \<lparr>pt_x = 70, pt_y = 26\<rparr>]]) \<and>
   validLightBars (snd (filter_locals demo_ext 0 demo_mask [demo_image])) =
     [\<lparr>rect_x = 2, rect_y = 2, width = 6, height = 30\<rparr>,
      \<lparr>rect_x = 60, rect_y = 10, width = 10, height = 16\<rparr>]"
proof -
  obtain res where r: "filterLightBars demo_ext 0 demo_mask 0 [demo_image] = Inr res"
    using demo_mask_nonempty by (simp add: filterLightBars_eq)
  show ?thesis
    using candidates_in_contour_order[OF r] r
    by (simp add: demo_findContours demo_filter demo_boundingRect enumerate_simps numeral_2_eq_2)
qed

lemma accepts_box:
  assumes "accepts cv c"
  shows "4 \<le> sint (width (boundingRect cv c))"
    and "11 \<le> sint (height (boundingRect cv c))"
    and "aspectRatio_of (boundingRect cv c) =
           Finite (round_double (of_int (sint (height (boundingRect cv c))) /
                                 of_int (sint (width (boundingRect cv c)))))"
proof -
  have a: "3 < sint (width (boundingRect cv c))" "10 < sint (height (boundingRect cv c))"
    using assms by (simp_all add: accepts_def isValidLightBar_iff)
  show "4 \<le> sint (width (boundingRect cv c))" "11 \<le> sint (height (boundingRect cv c))"
    using a by simp_all
  show "aspectRatio_of (boundingRect cv c) =
           Finite (round_double (of_int (sint (height (boundingRect cv c))) /
                                 of_int (sint (width (boundingRect cv c)))))"
    using a by (simp add: aspectRatio_of_def double_div_int_def)
qed

text \<open>
  C10. Every rectangle in \<open>validLightBars\<close> has width at least 4 and height at
  least 11, and every summary line printed comes from such a contour and carries
  the quotient of its height by its width, rounded to a double.
\<close>

theorem candidate_box_and_ratio:
  assumes "filterLightBars cv img bin vr s = Inr res"
  shows "(\<forall>r \<in> set (validLightBars (snd (filter_locals cv img bin s))).
            4 \<le> sint (width r) \<and> 11 \<le> sint (height r)) \<and>
         (\<forall>k area ar px py. ValidLightBar k area ar px py \<in> set (cout_out res) \<longrightarrow>
            (\<exists>c \<in> set (findContours cv bin).
               boundingRect cv c \<in> set (validLightBars (snd (filter_locals cv img bin s))) \<and>
               4 \<le> sint (width (boundingRect cv c)) \<and>
               11 \<le> sint (height (boundingRect cv c)) \<and>
               ar = double_div_int (sint (height (boundingRect cv c)))
                                   (sint (width (boundingRect cv c))) \<and>
               ar = Finite (round_double (of_int (sint (height (boundingRect cv c))) /
                                          of_int (sint (width (boundingRect cv c))))) \<and>
               area = contourArea cv c \<and>
               px = rect_x (boundingRect cv c) \<and> py = rect_y (boundingRect cv c)))"
proof (intro conjI allI impI ballI)
  fix r assume "r \<in> set (validLightBars (snd (filter_locals cv img bin s)))"
  then obtain c where "accepts cv c" "r = boundingRect cv c"
    by (auto simp: filter_locals_eq)
  then show "4 \<le> sint (width r)" "11 \<le> sint (height r)"
    using accepts_box(1,2)[of cv c] by simp_all
next
  fix k area ar px py
  assume m: "ValidLightBar k area ar px py \<in> set (cout_out res)"
  have "cout_out res = ContoursFound (length (findContours cv bin)) #
               map (\<lambda>(i, c). summary cv (Suc i) c)
                 (enumerate 0 (filter (accepts cv) (findContours cv bin))) @
               [LightBarsFiltered (length (filter (accepts cv) (findContours cv bin)))]"
    using assms by (auto simp: filterLightBars_eq split: if_splits)
  with m obtain i c where ic: "(i, c) \<in> set (enumerate 0 (filter (accepts cv) (findContours cv bin)))"
    and e: "ValidLightBar k area ar px py = summary cv (Suc i) c"
    by auto
  from ic have "c \<in> set (filter (accepts cv) (findContours cv bin))"
    by (auto simp: in_set_enumerate_eq simp del: set_filter)
  then have c: "c \<in> set (findContours cv bin)" "accepts cv c"
    by simp_all
  have v: "boundingRect cv c \<in> set (validLightBars (snd (filter_locals cv img bin s)))"
    using c by (simp add: filter_locals_eq)
  have ar: "ar = aspectRatio_of (boundingRect cv c)" "area = contourArea cv c"
    "px = rect_x (boundingRect cv c)" "py = rect_y (boundingRect cv c)"
    using e by (simp_all add: summary_def)
  show "\<exists>c \<in> set (findContours cv bin).
               boundingRect cv c \<in> set (validLightBars (snd (filter_locals cv img bin s))) \<and>
               4 \<le> sint (width (boundingRect cv c)) \<and>
               11 \<le> sint (height (boundingRect cv c)) \<and>
               ar = double_div_int (sint (height (boundingRect cv c)))
                                   (sint (width (boundingRect cv c))) \<and>
               ar = Finite (round_double (of_int (sint (height (boundingRect cv c))) /
                                          of_int (sint (width (boundingRect cv c))))) \<and>
               area = contourArea cv c \<and>
               px = rect_x (boundingRect cv c) \<and> py = rect_y (boundingRect cv c)"
    using c(1) v ar accepts_box[OF c(2)]
    by (intro bexI[of _ c]) (simp_all add: aspectRatio_of_def)
qed

lemma round_double_5: "round_double 5 = 5"
  by code_simp

theorem candidate_box_and_ratio_witness:
  "\<exists>res. filterLightBars demo_ext 0 demo_mask 0 [demo_image] = Inr res \<and>
     ValidLightBar 1 (Finite 180) (Finite 5) 2 2 \<in> set (cout_out res) \<and>
     (\<exists>c \<in> set (findContours demo_ext demo_mask).
        4 \<le> sint (width (boundingRect demo_ext c)) \<and>
        11 \<le> sint (height (boundingRect demo_ext c)) \<and>
        Finite 5 = double_div_int (sint (height (boundingRect demo_ext c)))
                                  (sint (width (boundingRect demo_ext c))))"
proof -
  obtain res where r: "filterLightBars demo_ext 0 demo_mask 0 [demo_image] = Inr res"
    using demo_mask_nonempty by (simp add: filterLightBars_eq)
  have "summary demo_ext 1 [\<lparr>pt_x = 2, pt_y = 2\<rparr>, \<lparr>pt_x = 8, pt_y = 32\<rparr>] =
          ValidLightBar 1 (Finite 180) (Finite 5) 2 2"
    by (simp add: summary_def demo_ext_def demo_contourArea_def aspectRatio_of_def
        double_div_int_def round_double_5)
  then have m: "ValidLightBar 1 (Finite 180) (Finite 5) 2 2 \<in> set (cout_out res)"
    using r demo_mask_nonempty
    by (auto simp: filterLightBars_eq demo_findContours demo_filter enumerate_simps)
  show ?thesis
    using candidate_box_and_ratio[OF r] r m by blast
qed

lemma demo_draw: "draw demo_ext m c = m\<lparr>elems := map (\<lambda>p. (0, 255, 0)) (elems m)\<rparr>"
  by (simp add: draw_def annotate_def demo_ext_def)

text \<open>
  C8. When no contour of a non-empty mask is accepted, the call returns
  normally and the returned image is a new buffer equal to the object's image.
\<close>

theorem no_candidate_unmodified_copy:
  assumes "\<not> Mat_empty bin" and "img < length s"
    and "\<forall>c \<in> set (findContours cv bin). \<not> accepts cv c"
  shows "\<exists>res. filterLightBars cv img bin vr s = Inr res \<and>
           store_out res ! returned res = s ! img \<and>
           visualResult_out res = returned res \<and>
           returned res \<noteq> img \<and>
           store_out res ! img = s ! img \<and>
           cout_out res = [ContoursFound (length (findContours cv bin)), LightBarsFiltered 0]"
proof -
  have "filter (accepts cv) (findContours cv bin) = []"
    using assms(3) by (simp add: filter_empty_conv)
  then show ?thesis
    using assms(1,2) by (simp add: filterLightBars_eq nth_append)
qed

theorem no_candidate_unmodified_copy_witness:
  "\<not> Mat_empty demo_mask \<and> (0::nat) < length [demo_image] \<and>
   filter (accepts (demo_ext\<lparr>findContours := \<lambda>m. tl (butlast demo_contours)\<rparr>))
     (findContours (demo_ext\<lparr>findContours := \<lambda>m. tl (butlast demo_contours)\<rparr>) demo_mask) = [] \<and>
   (\<exists>res. filterLightBars (demo_ext\<lparr>findContours := \<lambda>m. tl (butlast demo_contours)\<rparr>)
             0 demo_mask 0 [demo_image] = Inr res \<and>
      store_out res ! returned res = demo_image \<and>
      returned res \<noteq> 0 \<and>
      cout_out res = [ContoursFound 2, LightBarsFiltered 0])"
proof -
  let ?cv = "demo_ext\<lparr>findContours := \<lambda>m. tl (butlast demo_contours)\<rparr>"
  have a: "accepts ?cv = accepts demo_ext"
    by (rule ext) (simp add: accepts_def demo_ext_def)
  have h: "\<forall>c \<in> set (findContours ?cv demo_mask). \<not> accepts ?cv c"
    unfolding a by (simp add: demo_contours_def demo_accepts)
  have l: "(0::nat) < length [demo_image]" by simp
  show ?thesis
    using no_candidate_unmodified_copy[OF demo_mask_nonempty l h, of 0] h demo_mask_nonempty
    by (auto simp: demo_contours_def numeral_2_eq_2)
qed


subsection \<open>The colour mask and its refinement\<close>

lemma map2_or_commute: "map2 (OR) xs ys = map2 (OR) ys (xs :: uchar list)"
  by (induction xs ys rule: list_induct2') (simp_all add: or.commute)

lemma map2_or_assoc:
  "map2 (OR) (map2 (OR) xs ys) zs = map2 (OR) xs (map2 (OR) ys (zs :: uchar list))"
proof (induction xs arbitrary: ys zs)
  case Nil
  then show ?case by simp
next
  case (Cons x xs)
  then show ?case by (cases ys; cases zs) (simp_all add: or.assoc)
qed

lemma Mat_or_commute: "Mat_or a b = Mat_or b a"
  by (auto simp: Mat_or_def map2_or_commute)

lemma Mat_or_same_dims:
  "rows a = rows b \<Longrightarrow> cols a = cols b \<Longrightarrow>
   Mat_or a b = Inr \<lparr>rows = rows a, cols = cols a, elems = map2 (OR) (elems a) (elems b)\<rparr>"
  by (simp add: Mat_or_def)

lemma inRange_px_cases: "inRange_px lo hi p = 255 \<or> inRange_px lo hi p = 0"
  by (cases lo; cases hi; cases p) simp

lemma or3_foreground:
  fixes a b c :: uchar
  assumes "a = 255 \<or> a = 0" "b = 255 \<or> b = 0" "c = 255 \<or> c = 0"
  shows "(a OR b) OR c = (if a = 255 \<or> b = 255 \<or> c = 255 then 255 else 0)"
  using assms by auto

lemma map2_map_map: "map2 f (map g xs) (map h xs) = map (\<lambda>x. f (g x) (h x)) xs"
  by (induction xs) simp_all

lemma colorMask_eq:
  "colorMask cv img =
     Inr \<lparr>rows = rows img, cols = cols img,
          elems = map (\<lambda>p. if inRange_px red_lower1 red_upper1 (cvtColor_BGR2HSV cv p) = 255 \<or>
                               inRange_px red_lower2 red_upper2 (cvtColor_BGR2HSV cv p) = 255 \<or>
                               inRange_px blue_lower blue_upper (cvtColor_BGR2HSV cv p) = 255
                            then 255 else 0) (elems img)\<rparr>"
proof -
  have "(inRange_px red_lower1 red_upper1 q OR inRange_px red_lower2 red_upper2 q) OR
          inRange_px blue_lower blue_upper q =
        (if inRange_px red_lower1 red_upper1 q = 255 \<or>
            inRange_px red_lower2 red_upper2 q = 255 \<or>
            inRange_px blue_lower blue_upper q = 255 then 255 else 0)" for q
    by (rule or3_foreground) (rule inRange_px_cases)+
  then show ?thesis
    by (simp add: colorMask_def Let_def Mat_or_def inRange_def cvtColor_def map2_map_map
        del: inRange_px.simps)
qed

lemma extractLightBars_eq:
  "extractLightBars cv img =
     (if Mat_empty img then Inl (ImageProcessorException MsgImageEmptyExtract)
      else Inr (refineMask cv (projr (colorMask cv img)), [LightBarsExtracted]))"
  by (simp add: extractLightBars_def colorMask_eq)

lemma refineMask_eq:
  "refineMask cv m =
     erode cv \<lparr>rows = 3, cols = 3, elems = replicate 9 1\<rparr>
       (dilate cv \<lparr>rows = 3, cols = 3, elems = replicate 9 1\<rparr>
          (dilate cv \<lparr>rows = 3, cols = 3, elems = replicate 9 1\<rparr>
             (erode cv \<lparr>rows = 3, cols = 3, elems = replicate 9 1\<rparr> m)))"
  by (simp add: refineMask_def Let_def)

subsection \<open>The runs of main\<close>

lemma then_do_Inl: "then_do (es, Inl e) f = (es, Inl e)"
  by (simp add: then_do_def)

lemma then_do_Inr: "then_do (es, Inr v) f = apfst ((@) es) (f v)"
  by (simp add: then_do_def split: prod.split)

lemma apfst_then_do: "apfst ((@) es) (then_do m f) = then_do (apfst ((@) es) m) f"
  by (cases m; cases "snd m") (auto simp: then_do_def split: prod.split)

lemmas part_simps = then_do_Inl then_do_Inr apfst_then_do say_def emit_def quiet_def
  printing_def filtering_def

lemma main_load_failure:
  assumes "Mat_empty (imread cv ''hero.png'')"
  shows "main cv = \<lparr>events = [Cout MainHeading,
                               Cerr (ImageProcessorException (MsgCannotLoad ''hero.png''))],
                     exit_status = - 1\<rparr>"
  using assms by (simp add: main_def main_try_def part_simps ImageProcessor_def)

lemma main_mask_failure:
  assumes "\<not> Mat_empty (imread cv ''hero.png'')"
    and "Mat_empty (refineMask cv (projr (colorMask cv (imread cv ''hero.png''))))"
  shows "main cv =
     \<lparr>events = map Cout ([MainHeading, ImageLoaded ''hero.png''] @
                  info_lines (imread cv ''hero.png'') @
                  [PreprocessHeading, GrayDone, MeanBlurDone, GaussianBlurDone, DetectHeading,
                   LightBarsExtracted, FilterHeading]) @
                [Cerr (ImageProcessorException MsgBinaryEmpty)],
      exit_status = - 1\<rparr>"
  using assms
  by (simp add: main_def main_try_def part_simps ImageProcessor_def displayImageInfo_def
      getImageSize_def getChannels_def convertToGray_def applyMeanBlur_def applyGaussianBlur_def
      extractLightBars_eq filterLightBars_eq info_lines_def Let_def)

lemma main_success:
  assumes "\<not> Mat_empty (imread cv ''hero.png'')"
    and "\<not> Mat_empty (refineMask cv (projr (colorMask cv (imread cv ''hero.png''))))"
  shows "main cv =
     \<lparr>events =
        map Cout ([MainHeading, ImageLoaded ''hero.png''] @
                  info_lines (imread cv ''hero.png'') @
                  [PreprocessHeading, GrayDone, MeanBlurDone, GaussianBlurDone, DetectHeading,
                   LightBarsExtracted, FilterHeading]) @
        map Cout (cout_out (projr (filterLightBars cv 0
           (refineMask cv (projr (colorMask cv (imread cv ''hero.png'')))) 1
           [imread cv ''hero.png'', \<lparr>rows = 0, cols = 0, elems = []\<rparr>]))) @
        [Cout ShowHeading,
         NamedWindow WinOriginal, Imshow WinOriginal (ColorMat (imread cv ''hero.png'')),
         NamedWindow WinGray, Imshow WinGray (GrayMat (projr (convertToGray cv (imread cv ''hero.png'')))),
         NamedWindow WinMeanBlur, Imshow WinMeanBlur (ColorMat (blur cv (imread cv ''hero.png'') (5, 5))),
         NamedWindow WinMask,
         Imshow WinMask (GrayMat (refineMask cv (projr (colorMask cv (imread cv ''hero.png''))))),
         NamedWindow WinResult,
         Imshow WinResult (ColorMat (foldl (draw cv) (imread cv ''hero.png'')
           (filter (accepts cv) (findContours cv
              (refineMask cv (projr (colorMask cv (imread cv ''hero.png'')))))))),
         Imwrite ''output_gray.jpg'' (GrayMat (projr (convertToGray cv (imread cv ''hero.png'')))),
         Imwrite ''output_blur.jpg'' (ColorMat (blur cv (imread cv ''hero.png'') (5, 5))),
         Imwrite ''output_lightbar_mask.jpg''
           (GrayMat (refineMask cv (projr (colorMask cv (imread cv ''hero.png''))))),
         Imwrite ''output_result.jpg'' (ColorMat (foldl (draw cv) (imread cv ''hero.png'')
           (filter (accepts cv) (findContours cv
              (refineMask cv (projr (colorMask cv (imread cv ''hero.png'')))))))),
         Cout ResultsSaved, Cout PressAnyKey, WaitKey, DestroyAllWindows],
      exit_status = 0\<rparr>"
  using assms
  by (simp add: main_def main_try_def part_simps ImageProcessor_def displayImageInfo_def
      getImageSize_def getChannels_def convertToGray_def applyMeanBlur_def applyGaussianBlur_def
      extractLightBars_eq filterLightBars_eq info_lines_def getPixelData_def clone_def Let_def
      nth_append)

lemma main_exit_status:
  "(exit_status (main cv) = 0) =
     (\<not> Mat_empty (imread cv ''hero.png'') \<and>
      \<not> Mat_empty (refineMask cv (projr (colorMask cv (imread cv ''hero.png'')))))"
proof (cases "Mat_empty (imread cv ''hero.png'')")
  case True
  then show ?thesis by (simp add: main_load_failure)
next
  case False
  then show ?thesis
    by (cases "Mat_empty (refineMask cv (projr (colorMask cv (imread cv ''hero.png''))))")
       (simp_all add: main_mask_failure main_success)
qed

lemma main_exit_status_cases: "exit_status (main cv) = 0 \<or> exit_status (main cv) = - 1"
proof (cases "Mat_empty (imread cv ''hero.png'')")
  case True
  then show ?thesis by (simp add: main_load_failure)
next
  case False
  then show ?thesis
    by (cases "Mat_empty (refineMask cv (projr (colorMask cv (imread cv ''hero.png''))))")
       (simp_all add: main_mask_failure main_success)
qed

lemma filter_is_extracted_summaries:
  "filter is_extracted (map (Cout \<circ> (\<lambda>(i, c). summary cv (Suc i) c)) xs) = []"
  by (induction xs) (auto simp: summary_def)

lemma filter_is_extracted_cout_out:
  "\<not> Mat_empty bin \<Longrightarrow>
   filter is_extracted (map Cout (cout_out (projr (filterLightBars cv a bin v s)))) = []"
  by (simp add: filterLightBars_eq filter_is_extracted_summaries)

lemma main_extracted_count:
  "length (filter is_extracted (events (main cv))) =
     (if Mat_empty (imread cv ''hero.png'') then 0 else 1)"
proof (cases "Mat_empty (imread cv ''hero.png'')")
  case True
  then show ?thesis by (simp add: main_load_failure)
next
  case False
  then show ?thesis
    by (cases "Mat_empty (refineMask cv (projr (colorMask cv (imread cv ''hero.png''))))")
       (simp_all add: main_mask_failure main_success info_lines_def filter_is_extracted_cout_out)
qed

lemma colorMask_Inr: "\<exists>m0. colorMask cv img = Inr m0"
  by (simp add: colorMask_eq)

text \<open>
  C4. The refinement of a mask is one open, an erosion then a dilation, followed
  by one close, a dilation then an erosion, all four with the 3 by 3 element of
  ones; \<open>extractLightBars\<close> returns the refinement of the colour mask. A run
  of \<open>main\<close> completes \<open>extractLightBars\<close> at most once, and a run that
  succeeds exactly once. In such a run the colour mask of the loaded image,
  refined once, is the mask handed to \<open>filterLightBars\<close>, the mask shown
  and the mask written, and the events of the run are those listed, with the
  lines and the annotated image of that one call of \<open>filterLightBars\<close>.
\<close>

theorem mask_refined_once_per_run:
  "refineMask cv m =
     erode cv \<lparr>rows = 3, cols = 3, elems = replicate 9 1\<rparr>
       (dilate cv \<lparr>rows = 3, cols = 3, elems = replicate 9 1\<rparr>
          (dilate cv \<lparr>rows = 3, cols = 3, elems = replicate 9 1\<rparr>
             (erode cv \<lparr>rows = 3, cols = 3, elems = replicate 9 1\<rparr> m))) \<and>
   (\<not> Mat_empty img \<longrightarrow>
      (\<exists>m0. colorMask cv img = Inr m0 \<and>
            extractLightBars cv img = Inr (refineMask cv m0, [LightBarsExtracted]))) \<and>
   length (filter is_extracted (events (main cv))) \<le> 1 \<and>
   (exit_status (main cv) = 0 \<longrightarrow>
      (\<exists>m0 res.
         colorMask cv (imread cv ''hero.png'') = Inr m0 \<and>
         filterLightBars cv 0 (refineMask cv m0) 1
           [imread cv ''hero.png'', \<lparr>rows = 0, cols = 0, elems = []\<rparr>] = Inr res \<and>
         length (filter is_extracted (events (main cv))) = 1 \<and>
         Imshow WinMask (GrayMat (refineMask cv m0)) \<in> set (events (main cv)) \<and>
         Imwrite ''output_lightbar_mask.jpg'' (GrayMat (refineMask cv m0))
           \<in> set (events (main cv)) \<and>
         events (main cv) =
           map Cout ([MainHeading, ImageLoaded ''hero.png''] @
                     info_lines (imread cv ''hero.png'') @
                     [PreprocessHeading, GrayDone, MeanBlurDone, GaussianBlurDone,
                      DetectHeading, LightBarsExtracted, FilterHeading]) @
           map Cout (cout_out res) @
           [Cout ShowHeading,
            NamedWindow WinOriginal, Imshow WinOriginal (ColorMat (imread cv ''hero.png'')),
            NamedWindow WinGray,
            Imshow WinGray (GrayMat \<lparr>rows = rows (imread cv ''hero.png''),
              cols = cols (imread cv ''hero.png''),
              elems = map (cvtColor_BGR2GRAY cv) (elems (imread cv ''hero.png''))\<rparr>),
            NamedWindow WinMeanBlur,
            Imshow WinMeanBlur (ColorMat (blur cv (imread cv ''hero.png'') (5, 5))),
            NamedWindow WinMask, Imshow WinMask (GrayMat (refineMask cv m0)),
            NamedWindow WinResult,
            Imshow WinResult (ColorMat (store_out res ! returned res)),
            Imwrite ''output_gray.jpg'' (GrayMat \<lparr>rows = rows (imread cv ''hero.png''),
              cols = cols (imread cv ''hero.png''),
              elems = map (cvtColor_BGR2GRAY cv) (elems (imread cv ''hero.png''))\<rparr>),
            Imwrite ''output_blur.jpg'' (ColorMat (blur cv (imread cv ''hero.png'') (5, 5))),
            Imwrite ''output_lightbar_mask.jpg'' (GrayMat (refineMask cv m0)),
            Imwrite ''output_result.jpg'' (ColorMat (store_out res ! returned res)),
            Cout ResultsSaved, Cout PressAnyKey, WaitKey, DestroyAllWindows]))"
proof (intro conjI impI)
  show "refineMask cv m =
     erode cv \<lparr>rows = 3, cols = 3, elems = replicate 9 1\<rparr>
       (dilate cv \<lparr>rows = 3, cols = 3, elems = replicate 9 1\<rparr>
          (dilate cv \<lparr>rows = 3, cols = 3, elems = replicate 9 1\<rparr>
             (erode cv \<lparr>rows = 3, cols = 3, elems = replicate 9 1\<rparr> m)))"
    by (rule refineMask_eq)
next
  assume "\<not> Mat_empty img"
  then show "\<exists>m0. colorMask cv img = Inr m0 \<and>
            extractLightBars cv img = Inr (refineMask cv m0, [LightBarsExtracted])"
    using colorMask_Inr[of cv img] by (auto simp: extractLightBars_eq)
next
  show "length (filter is_extracted (events (main cv))) \<le> 1"
    by (simp add: main_extracted_count)
next
  assume ok: "exit_status (main cv) = 0"
  let ?img = "imread cv ''hero.png''"
  let ?s = "[?img, \<lparr>rows = 0, cols = 0, elems = []\<rparr>]"
  from ok have ne: "\<not> Mat_empty ?img"
    "\<not> Mat_empty (refineMask cv (projr (colorMask cv ?img)))"
    by (simp_all add: main_exit_status)
  obtain m0 where m0: "colorMask cv ?img = Inr m0"
    using colorMask_Inr by blast
  then have pm: "projr (colorMask cv ?img) = m0" by simp
  have ne2: "\<not> Mat_empty (refineMask cv m0)" using ne(2) pm by simp
  obtain res where res: "filterLightBars cv 0 (refineMask cv m0) 1 ?s = Inr res"
    using ne2 by (simp add: filterLightBars_eq)
  then have pr: "projr (filterLightBars cv 0 (refineMask cv m0) 1 ?s) = res" by simp
  have dr: "foldl (draw cv) ?img (filter (accepts cv) (findContours cv (refineMask cv m0))) =
      store_out res ! returned res"
    using res ne2 by (auto simp: filterLightBars_eq)
  have gr: "projr (convertToGray cv ?img) =
      \<lparr>rows = rows ?img, cols = cols ?img, elems = map (cvtColor_BGR2GRAY cv) (elems ?img)\<rparr>"
    using ne(1) by (simp add: convertToGray_def)
  have cnt: "length (filter is_extracted (events (main cv))) = 1"
    using ne by (simp add: main_extracted_count)
  have ev: "events (main cv) =
           map Cout ([MainHeading, ImageLoaded ''hero.png''] @
                     info_lines ?img @
                     [PreprocessHeading, GrayDone, MeanBlurDone, GaussianBlurDone,
                      DetectHeading, LightBarsExtracted, FilterHeading]) @
           map Cout (cout_out res) @
           [Cout ShowHeading,
            NamedWindow WinOriginal, Imshow WinOriginal (ColorMat ?img),
            NamedWindow WinGray,
            Imshow WinGray (GrayMat \<lparr>rows = rows ?img, cols = cols ?img,
              elems = map (cvtColor_BGR2GRAY cv) (elems ?img)\<rparr>),
            NamedWindow WinMeanBlur,
            Imshow WinMeanBlur (ColorMat (blur cv ?img (5, 5))),
            NamedWindow WinMask, Imshow WinMask (GrayMat (refineMask cv m0)),
            NamedWindow WinResult,
            Imshow WinResult (ColorMat (store_out res ! returned res)),
            Imwrite ''output_gray.jpg'' (GrayMat \<lparr>rows = rows ?img, cols = cols ?img,
              elems = map (cvtColor_BGR2GRAY cv) (elems ?img)\<rparr>),
            Imwrite ''output_blur.jpg'' (ColorMat (blur cv ?img (5, 5))),
            Imwrite ''output_lightbar_mask.jpg'' (GrayMat (refineMask cv m0)),
            Imwrite ''output_result.jpg'' (ColorMat (store_out res ! returned res)),
            Cout ResultsSaved, Cout PressAnyKey, WaitKey, DestroyAllWindows]"
    unfolding main_success[OF ne] pm pr dr gr by simp
  have sh: "Imshow WinMask (GrayMat (refineMask cv m0)) \<in> set (events (main cv))"
    "Imwrite ''output_lightbar_mask.jpg'' (GrayMat (refineMask cv m0)) \<in> set (events (main cv))"
    unfolding ev by simp_all
  show "\<exists>m0 res.
         colorMask cv ?img = Inr m0 \<and>
         filterLightBars cv 0 (refineMask cv m0) 1 ?s = Inr res \<and>
         length (filter is_extracted (events (main cv))) = 1 \<and>
         Imshow WinMask (GrayMat (refineMask cv m0)) \<in> set (events (main cv)) \<and>
         Imwrite ''output_lightbar_mask.jpg'' (GrayMat (refineMask cv m0))
           \<in> set (events (main cv)) \<and>
         events (main cv) =
           map Cout ([MainHeading, ImageLoaded ''hero.png''] @
                     info_lines ?img @
                     [PreprocessHeading, GrayDone, MeanBlurDone, GaussianBlurDone,
                      DetectHeading, LightBarsExtracted, FilterHeading]) @
           map Cout (cout_out res) @
           [Cout ShowHeading,
            NamedWindow WinOriginal, Imshow WinOriginal (ColorMat ?img),
            NamedWindow WinGray,
            Imshow WinGray (GrayMat \<lparr>rows = rows ?img, cols = cols ?img,
              elems = map (cvtColor_BGR2GRAY cv) (elems ?img)\<rparr>),
            NamedWindow WinMeanBlur,
            Imshow WinMeanBlur (ColorMat (blur cv ?img (5, 5))),
            NamedWindow WinMask, Imshow WinMask (GrayMat (refineMask cv m0)),
            NamedWindow WinResult,
            Imshow WinResult (ColorMat (store_out res ! returned res)),
            Imwrite ''output_gray.jpg'' (GrayMat \<lparr>rows = rows ?img, cols = cols ?img,
              elems = map (cvtColor_BGR2GRAY cv) (elems ?img)\<rparr>),
            Imwrite ''output_blur.jpg'' (ColorMat (blur cv ?img (5, 5))),
            Imwrite ''output_lightbar_mask.jpg'' (GrayMat (refineMask cv m0)),
            Imwrite ''output_result.jpg'' (ColorMat (store_out res ! returned res)),
            Cout ResultsSaved, Cout PressAnyKey, WaitKey, DestroyAllWindows]"
    using m0 res cnt sh ev by blast
qed

lemma demo_colorMask: "colorMask demo_ext demo_image = Inr demo_mask"
  by (simp add: colorMask_eq demo_ext_def demo_image_def demo_mask_def
      red_lower1_def red_upper1_def red_lower2_def red_upper2_def blue_lower_def blue_upper_def)

lemma demo_imread: "imread demo_ext p = demo_image"
  by (simp add: demo_ext_def demo_image_def)

lemma demo_refineMask: "refineMask demo_ext m = m"
  by (simp add: refineMask_eq demo_ext_def)

lemma demo_image_nonempty: "\<not> Mat_empty demo_image"
  by (simp add: Mat_empty_def demo_image_def)

lemma demo_main_ok: "exit_status (main demo_ext) = 0"
  by (simp add: main_exit_status demo_imread demo_colorMask demo_refineMask
      demo_image_nonempty demo_mask_nonempty)

lemma marking_imread: "imread marking_ext p = demo_image"
  by (simp add: marking_ext_def demo_ext_def demo_image_def)

lemma marking_colorMask: "colorMask marking_ext demo_image = Inr demo_mask"
  by (simp add: colorMask_eq marking_ext_def demo_ext_def demo_image_def demo_mask_def
      red_lower1_def red_upper1_def red_lower2_def red_upper2_def blue_lower_def blue_upper_def)

lemma marking_refineMask:
  "refineMask marking_ext demo_mask = \<lparr>rows = 1, cols = 2, elems = [41, 45]\<rparr>"
  by (simp add: refineMask_eq marking_ext_def demo_ext_def demo_mask_def)

lemma marking_refineMask_twice:
  "refineMask marking_ext (refineMask marking_ext demo_mask) =
     \<lparr>rows = 1, cols = 2, elems = [209, 225]\<rparr>"
  unfolding marking_refineMask
  by (simp add: refineMask_eq marking_ext_def demo_ext_def)

lemma marking_findContours:
  "findContours marking_ext \<lparr>rows = 1, cols = 2, elems = [41, 45]\<rparr> = demo_contours"
  "findContours marking_ext demo_mask = []"
  "findContours marking_ext \<lparr>rows = 1, cols = 2, elems = [209, 225]\<rparr> = []"
  by (simp_all add: marking_ext_def demo_ext_def demo_mask_def)

lemma contours_found_printed:
  "filterLightBars cv a bin v s = Inr res \<Longrightarrow>
   ContoursFound (length (findContours cv bin)) \<in> set (cout_out res)"
  by (auto simp: filterLightBars_eq split: if_splits)

lemma demo_contours_length: "length demo_contours = 4"
  by (simp add: demo_contours_def)

lemma marking_main_ok: "exit_status (main marking_ext) = 0"
  using demo_image_nonempty
  by (simp add: main_exit_status marking_imread marking_colorMask marking_refineMask)
     (simp add: Mat_empty_def)

theorem mask_refined_once_per_run_witness:
  "\<not> Mat_empty demo_image \<and> exit_status (main marking_ext) = 0 \<and>
   refineMask marking_ext demo_mask = \<lparr>rows = 1, cols = 2, elems = [41, 45]\<rparr> \<and>
   extractLightBars marking_ext demo_image =
     Inr (\<lparr>rows = 1, cols = 2, elems = [41, 45]\<rparr>, [LightBarsExtracted]) \<and>
   length (filter is_extracted (events (main marking_ext))) = 1 \<and>
   Imwrite ''output_lightbar_mask.jpg'' (GrayMat \<lparr>rows = 1, cols = 2, elems = [41, 45]\<rparr>)
     \<in> set (events (main marking_ext)) \<and>
   Cout (ContoursFound 4) \<in> set (events (main marking_ext)) \<and>
   findContours marking_ext demo_mask = [] \<and>
   findContours marking_ext (refineMask marking_ext (refineMask marking_ext demo_mask)) = []"
proof -
  note t = mask_refined_once_per_run[of marking_ext demo_mask demo_image]
  let ?r = "\<lparr>rows = 1, cols = 2, elems = [41, 45]\<rparr> :: uchar Mat"
  have x: "extractLightBars marking_ext demo_image = Inr (?r, [LightBarsExtracted])"
  proof -
    have "\<exists>m0. colorMask marking_ext demo_image = Inr m0 \<and>
            extractLightBars marking_ext demo_image =
              Inr (refineMask marking_ext m0, [LightBarsExtracted])"
      using t demo_image_nonempty by blast
    then show ?thesis by (auto simp: marking_colorMask marking_refineMask)
  qed
  obtain m0 res where
    m0: "colorMask marking_ext (imread marking_ext ''hero.png'') = Inr m0" and
    res: "filterLightBars marking_ext 0 (refineMask marking_ext m0) 1
           [imread marking_ext ''hero.png'', \<lparr>rows = 0, cols = 0, elems = []\<rparr>] = Inr res" and
    cnt: "length (filter is_extracted (events (main marking_ext))) = 1" and
    wr: "Imwrite ''output_lightbar_mask.jpg'' (GrayMat (refineMask marking_ext m0))
           \<in> set (events (main marking_ext))" and
    ev: "set (map Cout (cout_out res)) \<subseteq> set (events (main marking_ext))"
  proof -
    from t marking_main_ok obtain m0 res where
      a: "colorMask marking_ext (imread marking_ext ''hero.png'') = Inr m0"
         "filterLightBars marking_ext 0 (refineMask marking_ext m0) 1
           [imread marking_ext ''hero.png'', \<lparr>rows = 0, cols = 0, elems = []\<rparr>] = Inr res"
         "length (filter is_extracted (events (main marking_ext))) = 1"
         "Imwrite ''output_lightbar_mask.jpg'' (GrayMat (refineMask marking_ext m0))
           \<in> set (events (main marking_ext))" and
      b: "\<exists>pre post. events (main marking_ext) = pre @ map Cout (cout_out res) @ post"
      by blast
    from b have "set (map Cout (cout_out res)) \<subseteq> set (events (main marking_ext))"
      by auto
    with a show ?thesis using that by blast
  qed
  have m: "m0 = demo_mask" using m0 by (simp add: marking_imread marking_colorMask)
  have "ContoursFound (length (findContours marking_ext (refineMask marking_ext m0)))
          \<in> set (cout_out res)"
    using res by (rule contours_found_printed)
  then have f: "ContoursFound 4 \<in> set (cout_out res)"
    by (simp only: m marking_refineMask marking_findContours demo_contours_length)
  then have c: "Cout (ContoursFound 4) \<in> set (events (main marking_ext))"
    using ev by auto
  have tw: "findContours marking_ext (refineMask marking_ext (refineMask marking_ext demo_mask)) = []"
    by (simp only: marking_refineMask_twice marking_findContours(3))
  have wr': "Imwrite ''output_lightbar_mask.jpg'' (GrayMat ?r) \<in> set (events (main marking_ext))"
    using wr by (simp only: m marking_refineMask)
  show ?thesis
    using demo_image_nonempty marking_main_ok marking_refineMask x cnt wr' c
      marking_findContours(2) tw
    by blast
qed

subsection \<open>The union of masks and the colour ranges\<close>

text \<open>
  C5. On masks of the same dimensions the union is defined, commutative and
  associative. The colour mask is the union of the union of the two red masks
  with the blue mask: it has the image's dimensions, and a pixel is 255 in it
  when its HSV value lies in one of the three ranges and 0 otherwise.
\<close>

theorem mask_union_laws:
  assumes "rows a = rows b" and "cols a = cols b" and "rows b = rows c" and "cols b = cols c"
  shows "Mat_or a b = Mat_or b a \<and>
         (\<exists>ab bc abc. Mat_or a b = Inr ab \<and> Mat_or b c = Inr bc \<and>
                      Mat_or ab c = Inr abc \<and> Mat_or a bc = Inr abc) \<and>
         (\<exists>red_mask final_mask.
            Mat_or (inRange (cvtColor cv img) red_lower1 red_upper1)
                   (inRange (cvtColor cv img) red_lower2 red_upper2) = Inr red_mask \<and>
            Mat_or red_mask (inRange (cvtColor cv img) blue_lower blue_upper) = Inr final_mask \<and>
            colorMask cv img = Inr final_mask \<and>
            rows final_mask = rows img \<and> cols final_mask = cols img \<and>
            elems final_mask =
              map (\<lambda>p. if inRange_px red_lower1 red_upper1 (cvtColor_BGR2HSV cv p) = 255 \<or>
                           inRange_px red_lower2 red_upper2 (cvtColor_BGR2HSV cv p) = 255 \<or>
                           inRange_px blue_lower blue_upper (cvtColor_BGR2HSV cv p) = 255
                        then 255 else 0) (elems img))"
proof (intro conjI)
  show "Mat_or a b = Mat_or b a" by (rule Mat_or_commute)
  show "\<exists>ab bc abc. Mat_or a b = Inr ab \<and> Mat_or b c = Inr bc \<and>
                      Mat_or ab c = Inr abc \<and> Mat_or a bc = Inr abc"
    using assms by (simp add: Mat_or_def map2_or_assoc)
  obtain red_mask where red: "Mat_or (inRange (cvtColor cv img) red_lower1 red_upper1)
                       (inRange (cvtColor cv img) red_lower2 red_upper2) = Inr red_mask"
    by (simp add: Mat_or_def inRange_def)
  let ?final = "\<lparr>rows = rows img, cols = cols img,
          elems = map (\<lambda>p. if inRange_px red_lower1 red_upper1 (cvtColor_BGR2HSV cv p) = 255 \<or>
                               inRange_px red_lower2 red_upper2 (cvtColor_BGR2HSV cv p) = 255 \<or>
                               inRange_px blue_lower blue_upper (cvtColor_BGR2HSV cv p) = 255
                            then 255 else 0) (elems img)\<rparr>"
  have cm: "colorMask cv img = Inr ?final" by (rule colorMask_eq)
  have "colorMask cv img = Mat_or red_mask (inRange (cvtColor cv img) blue_lower blue_upper)"
    using red by (simp add: colorMask_def Let_def)
  then have fin: "Mat_or red_mask (inRange (cvtColor cv img) blue_lower blue_upper) = Inr ?final"
    using cm by simp
  show "\<exists>red_mask final_mask.
            Mat_or (inRange (cvtColor cv img) red_lower1 red_upper1)
                   (inRange (cvtColor cv img) red_lower2 red_upper2) = Inr red_mask \<and>
            Mat_or red_mask (inRange (cvtColor cv img) blue_lower blue_upper) = Inr final_mask \<and>
            colorMask cv img = Inr final_mask \<and>
            rows final_mask = rows img \<and> cols final_mask = cols img \<and>
            elems final_mask =
              map (\<lambda>p. if inRange_px red_lower1 red_upper1 (cvtColor_BGR2HSV cv p) = 255 \<or>
                           inRange_px red_lower2 red_upper2 (cvtColor_BGR2HSV cv p) = 255 \<or>
                           inRange_px blue_lower blue_upper (cvtColor_BGR2HSV cv p) = 255
                        then 255 else 0) (elems img)"
    by (rule exI[of _ red_mask], rule exI[of _ ?final]) (simp add: red fin cm)
qed

theorem mask_union_laws_witness:
  "Mat_or \<lparr>rows = 1, cols = 2, elems = [255, 0]\<rparr> \<lparr>rows = 1, cols = 2, elems = [0, 0]\<rparr> =
     Mat_or \<lparr>rows = 1, cols = 2, elems = [0, 0]\<rparr> \<lparr>rows = 1, cols = 2, elems = [255, 0]\<rparr> \<and>
   Mat_or \<lparr>rows = 1, cols = 2, elems = [255, 0]\<rparr> \<lparr>rows = 1, cols = 2, elems = [0, 0]\<rparr> =
     Inr \<lparr>rows = 1, cols = 2, elems = [255, 0]\<rparr> \<and>
   colorMask demo_ext demo_image = Inr \<lparr>rows = 1, cols = 2, elems = [255, 0]\<rparr>"
  using mask_union_laws[of "\<lparr>rows = 1, cols = 2, elems = [255, 0]\<rparr>"
      "\<lparr>rows = 1, cols = 2, elems = [0, 0]\<rparr>" "\<lparr>rows = 1, cols = 2, elems = [0, 255]\<rparr>"
      demo_ext demo_image]
  by (auto simp: Mat_or_def demo_ext_def demo_image_def
      red_lower1_def red_upper1_def red_lower2_def red_upper2_def blue_lower_def blue_upper_def)

lemma uint_uchar_le: "uint (w :: uchar) \<le> 255"
  using uint_lt2p[of w] by simp

text \<open>
  C9. The three ranges, bounds included: hue 0 to 10, 160 to 180 and 100 to 130,
  each with saturation and value 100 to 255. A pixel of a sub-mask is 255 exactly
  when its three components lie within the bounds of that range, and a pixel of
  the colour mask is 255 exactly when its hue lies in one of the three hue bands
  and its saturation and value are at least 100.
\<close>

theorem default_color_ranges:
  "inRange_px red_lower1 red_upper1 (h, s, v) =
     (if 0 \<le> uint h \<and> uint h \<le> 10 \<and> 100 \<le> uint s \<and> uint s \<le> 255 \<and>
         100 \<le> uint v \<and> uint v \<le> 255 then 255 else 0) \<and>
   inRange_px red_lower2 red_upper2 (h, s, v) =
     (if 160 \<le> uint h \<and> uint h \<le> 180 \<and> 100 \<le> uint s \<and> uint s \<le> 255 \<and>
         100 \<le> uint v \<and> uint v \<le> 255 then 255 else 0) \<and>
   inRange_px blue_lower blue_upper (h, s, v) =
     (if 100 \<le> uint h \<and> uint h \<le> 130 \<and> 100 \<le> uint s \<and> uint s \<le> 255 \<and>
         100 \<le> uint v \<and> uint v \<le> 255 then 255 else 0) \<and>
   (\<forall>i m0. i < length (elems img) \<longrightarrow> cvtColor_BGR2HSV cv (elems img ! i) = (h, s, v) \<longrightarrow>
      colorMask cv img = Inr m0 \<longrightarrow>
      elems (inRange (cvtColor cv img) red_lower1 red_upper1) ! i =
        inRange_px red_lower1 red_upper1 (h, s, v) \<and>
      elems (inRange (cvtColor cv img) red_lower2 red_upper2) ! i =
        inRange_px red_lower2 red_upper2 (h, s, v) \<and>
      elems (inRange (cvtColor cv img) blue_lower blue_upper) ! i =
        inRange_px blue_lower blue_upper (h, s, v) \<and>
      (elems m0 ! i = 255) =
        ((uint h \<le> 10 \<or> (160 \<le> uint h \<and> uint h \<le> 180) \<or> (100 \<le> uint h \<and> uint h \<le> 130)) \<and>
         100 \<le> uint s \<and> 100 \<le> uint v) \<and>
      (elems m0 ! i \<noteq> 255 \<longrightarrow> elems m0 ! i = 0))"
proof -
  have px: "inRange_px red_lower1 red_upper1 (h, s, v) =
     (if 0 \<le> uint h \<and> uint h \<le> 10 \<and> 100 \<le> uint s \<and> uint s \<le> 255 \<and>
         100 \<le> uint v \<and> uint v \<le> 255 then 255 else 0)"
    "inRange_px red_lower2 red_upper2 (h, s, v) =
     (if 160 \<le> uint h \<and> uint h \<le> 180 \<and> 100 \<le> uint s \<and> uint s \<le> 255 \<and>
         100 \<le> uint v \<and> uint v \<le> 255 then 255 else 0)"
    "inRange_px blue_lower blue_upper (h, s, v) =
     (if 100 \<le> uint h \<and> uint h \<le> 130 \<and> 100 \<le> uint s \<and> uint s \<le> 255 \<and>
         100 \<le> uint v \<and> uint v \<le> 255 then 255 else 0)"
    by (simp_all add: red_lower1_def red_upper1_def red_lower2_def red_upper2_def
        blue_lower_def blue_upper_def)
  have le: "uint s \<le> 255" "uint v \<le> 255" by (rule uint_uchar_le)+
  show ?thesis
    unfolding px using le
    by (auto simp: colorMask_eq inRange_def cvtColor_def px)
qed

theorem default_color_ranges_witness:
  "inRange_px red_lower1 red_upper1 (10, 100, 255) = 255 \<and>
   inRange_px red_lower1 red_upper1 (11, 100, 255) = 0 \<and>
   inRange_px red_lower2 red_upper2 (160, 255, 100) = 255 \<and>
   inRange_px red_lower2 red_upper2 (159, 255, 100) = 0 \<and>
   inRange_px blue_lower blue_upper (130, 100, 100) = 255 \<and>
   inRange_px blue_lower blue_upper (130, 99, 100) = 0 \<and>
   (0::nat) < length (elems demo_image) \<and>
   cvtColor_BGR2HSV demo_ext (elems demo_image ! 0) = (5, 200, 200) \<and>
   colorMask demo_ext demo_image = Inr demo_mask \<and>
   elems demo_mask ! 0 = 255"
  using default_color_ranges[of 10 100 255 demo_image demo_ext]
    default_color_ranges[of 11 100 255 demo_image demo_ext]
    default_color_ranges[of 160 255 100 demo_image demo_ext]
    default_color_ranges[of 159 255 100 demo_image demo_ext]
    default_color_ranges[of 130 100 100 demo_image demo_ext]
    default_color_ranges[of 130 99 100 demo_image demo_ext]
    default_color_ranges[of 5 200 200 demo_image demo_ext] demo_colorMask
  by (simp add: demo_image_def demo_ext_def demo_mask_def)


subsection \<open>Empty inputs and the input image\<close>

lemma filter_is_output_cout: "filter is_output (map Cout ls) = []"
  by (induction ls) simp_all

text \<open>
  C6. \<open>extractLightBars\<close> on an empty image and \<open>filterLightBars\<close> on
  an empty mask throw the class's exception and do nothing else. In \<open>main\<close>
  an image that could not be loaded ends the run at the constructor and an empty
  mask ends it at \<open>filterLightBars\<close>; a run that fails returns -1 after one
  line on \<open>std::cerr\<close>, having shown and written no image.
\<close>

theorem empty_input_aborts:
  "(Mat_empty img \<longrightarrow>
      extractLightBars cv img = Inl (ImageProcessorException MsgImageEmptyExtract)) \<and>
   (Mat_empty bin \<longrightarrow>
      filterLightBars cv a bin vr s = Inl (ImageProcessorException MsgBinaryEmpty)) \<and>
   (Mat_empty (imread cv ''hero.png'') \<longrightarrow>
      main cv = \<lparr>events = [Cout MainHeading,
                             Cerr (ImageProcessorException (MsgCannotLoad ''hero.png''))],
                   exit_status = - 1\<rparr>) \<and>
   (\<forall>m0. \<not> Mat_empty (imread cv ''hero.png'') \<longrightarrow>
      colorMask cv (imread cv ''hero.png'') = Inr m0 \<longrightarrow>
      Mat_empty (refineMask cv m0) \<longrightarrow>
      exit_status (main cv) = - 1 \<and>
      last (events (main cv)) = Cerr (ImageProcessorException MsgBinaryEmpty)) \<and>
   (exit_status (main cv) \<noteq> 0 \<longrightarrow>
      exit_status (main cv) = - 1 \<and>
      filter is_output (events (main cv)) = [] \<and>
      (\<exists>es msg. events (main cv) = es @ [Cerr (ImageProcessorException msg)]))"
proof (intro conjI impI allI)
  assume "Mat_empty img"
  then show "extractLightBars cv img = Inl (ImageProcessorException MsgImageEmptyExtract)"
    by (simp add: extractLightBars_def)
next
  assume "Mat_empty bin"
  then show "filterLightBars cv a bin vr s = Inl (ImageProcessorException MsgBinaryEmpty)"
    by (simp add: filterLightBars_def)
next
  assume "Mat_empty (imread cv ''hero.png'')"
  then show "main cv = \<lparr>events = [Cout MainHeading,
                             Cerr (ImageProcessorException (MsgCannotLoad ''hero.png''))],
                   exit_status = - 1\<rparr>"
    by (rule main_load_failure)
next
  fix m0
  assume a: "\<not> Mat_empty (imread cv ''hero.png'')"
    "colorMask cv (imread cv ''hero.png'') = Inr m0" "Mat_empty (refineMask cv m0)"
  then have b: "Mat_empty (refineMask cv (projr (colorMask cv (imread cv ''hero.png''))))"
    by simp
  show "exit_status (main cv) = - 1"
    by (simp add: main_mask_failure[OF a(1) b])
  show "last (events (main cv)) = Cerr (ImageProcessorException MsgBinaryEmpty)"
    by (simp add: main_mask_failure[OF a(1) b])
next
  assume "exit_status (main cv) \<noteq> 0"
  then show "exit_status (main cv) = - 1"
    using main_exit_status_cases[of cv] by simp
next
  assume f: "exit_status (main cv) \<noteq> 0"
  show "filter is_output (events (main cv)) = []"
  proof (cases "Mat_empty (imread cv ''hero.png'')")
    case True
    then show ?thesis by (simp add: main_load_failure)
  next
    case False
    then have "Mat_empty (refineMask cv (projr (colorMask cv (imread cv ''hero.png''))))"
      using f by (simp add: main_exit_status)
    then show ?thesis
      using False by (simp add: main_mask_failure filter_is_output_cout del: map_append)
  qed
next
  assume f: "exit_status (main cv) \<noteq> 0"
  show "\<exists>es msg. events (main cv) = es @ [Cerr (ImageProcessorException msg)]"
  proof (cases "Mat_empty (imread cv ''hero.png'')")
    case True
    have "events (main cv) =
        [Cout MainHeading] @ [Cerr (ImageProcessorException (MsgCannotLoad ''hero.png''))]"
      using True by (simp add: main_load_failure)
    then show ?thesis by blast
  next
    case False
    then have "Mat_empty (refineMask cv (projr (colorMask cv (imread cv ''hero.png''))))"
      using f by (simp add: main_exit_status)
    then have "events (main cv) =
        map Cout ([MainHeading, ImageLoaded ''hero.png''] @
                  info_lines (imread cv ''hero.png'') @
                  [PreprocessHeading, GrayDone, MeanBlurDone, GaussianBlurDone, DetectHeading,
                   LightBarsExtracted, FilterHeading]) @
                [Cerr (ImageProcessorException MsgBinaryEmpty)]"
      using False by (simp add: main_mask_failure)
    then show ?thesis by blast
  qed
qed

theorem empty_input_aborts_witness:
  "Mat_empty \<lparr>rows = 0, cols = 5, elems = ([] :: Vec3b list)\<rparr> \<and>
   extractLightBars demo_ext \<lparr>rows = 0, cols = 5, elems = []\<rparr> =
     Inl (ImageProcessorException MsgImageEmptyExtract) \<and>
   Mat_empty \<lparr>rows = 4, cols = 0, elems = ([] :: uchar list)\<rparr> \<and>
   filterLightBars demo_ext 0 \<lparr>rows = 4, cols = 0, elems = []\<rparr> 0 [demo_image] =
     Inl (ImageProcessorException MsgBinaryEmpty) \<and>
   Mat_empty (imread (demo_ext\<lparr>imread := \<lambda>p. \<lparr>rows = 0, cols = 0, elems = []\<rparr>\<rparr>) ''hero.png'') \<and>
   exit_status (main (demo_ext\<lparr>imread := \<lambda>p. \<lparr>rows = 0, cols = 0, elems = []\<rparr>\<rparr>)) = - 1 \<and>
   filter is_output (events (main (demo_ext\<lparr>imread := \<lambda>p. \<lparr>rows = 0, cols = 0, elems = []\<rparr>\<rparr>))) = []"
proof -
  let ?cv = "demo_ext\<lparr>imread := \<lambda>p. \<lparr>rows = 0, cols = 0, elems = []\<rparr>\<rparr>"
  let ?i = "\<lparr>rows = 0, cols = 5, elems = ([] :: Vec3b list)\<rparr>"
  let ?b = "\<lparr>rows = 4, cols = 0, elems = ([] :: uchar list)\<rparr>"
  have e: "Mat_empty (imread ?cv ''hero.png'')" by (simp add: Mat_empty_def)
  have e1: "Mat_empty ?i" and e2: "Mat_empty ?b"
    by (simp_all add: Mat_empty_def)
  note t = empty_input_aborts[of ?i ?cv ?b 0 0 "[demo_image]"]
  note u = empty_input_aborts[of ?i demo_ext ?b 0 0 "[demo_image]"]
  have x: "extractLightBars demo_ext ?i = Inl (ImageProcessorException MsgImageEmptyExtract)"
    using u e1 by blast
  have f: "filterLightBars demo_ext 0 ?b 0 [demo_image] = Inl (ImageProcessorException MsgBinaryEmpty)"
    using u e2 by blast
  have m: "main ?cv = \<lparr>events = [Cout MainHeading,
                             Cerr (ImageProcessorException (MsgCannotLoad ''hero.png''))],
                   exit_status = - 1\<rparr>"
    using t e by blast
  have s: "exit_status (main ?cv) = - 1" by (simp only: m main_result.simps)
  then have n: "exit_status (main ?cv) \<noteq> 0" by simp
  have o: "filter is_output (events (main ?cv)) = []"
    using t n by blast
  show ?thesis
    using e e1 e2 x f s o by blast
qed

text \<open>
  C7. A call of \<open>filterLightBars\<close> leaves every buffer that existed before
  it unchanged, the object's image among them; the drawings are made on a newly
  allocated copy, whose address is returned and given to \<open>visualResult\<close>.
  The original image that a successful run of \<open>main\<close> shows after the
  detection is the image it loaded.
\<close>

theorem input_image_unchanged:
  "(filterLightBars cv img bin vr s = Inr res \<longrightarrow> img < length s \<longrightarrow>
      take (length s) (store_out res) = s \<and>
      store_out res ! img = s ! img \<and>
      returned res \<noteq> img \<and>
      visualResult_out res = returned res \<and>
      store_out res ! returned res =
        foldl (draw cv) (s ! img) (filter (accepts cv) (findContours cv bin))) \<and>
   (exit_status (main cv) = 0 \<longrightarrow>
      Imshow WinOriginal (ColorMat (imread cv ''hero.png'')) \<in> set (events (main cv)))"
proof (intro conjI impI)
  assume ok: "exit_status (main cv) = 0"
  then have ne: "\<not> Mat_empty (imread cv ''hero.png'')"
    "\<not> Mat_empty (refineMask cv (projr (colorMask cv (imread cv ''hero.png''))))"
    by (simp_all add: main_exit_status)
  show "Imshow WinOriginal (ColorMat (imread cv ''hero.png'')) \<in> set (events (main cv))"
    by (simp add: main_success[OF ne])
qed (auto simp: filterLightBars_eq nth_append split: if_splits)

theorem input_image_unchanged_witness:
  "\<exists>res. filterLightBars demo_ext 0 demo_mask 0 [demo_image] = Inr res \<and>
     (0::nat) < length [demo_image] \<and>
     store_out res ! 0 = demo_image \<and>
     returned res = 1 \<and>
     store_out res ! returned res = \<lparr>rows = 1, cols = 2, elems = [(0, 255, 0), (0, 255, 0)]\<rparr> \<and>
     exit_status (main demo_ext) = 0 \<and>
     Imshow WinOriginal (ColorMat demo_image) \<in> set (events (main demo_ext))"
proof -
  obtain res where r: "filterLightBars demo_ext 0 demo_mask 0 [demo_image] = Inr res"
    using demo_mask_nonempty by (simp add: filterLightBars_eq)
  have l: "(0::nat) < length [demo_image]" by simp
  have one: "returned res = 1" using r demo_mask_nonempty by (auto simp: filterLightBars_eq)
  note t = input_image_unchanged[of demo_ext 0 demo_mask 0 "[demo_image]" res]
  have a: "store_out res ! 0 = [demo_image] ! 0 \<and>
      store_out res ! returned res =
        foldl (draw demo_ext) ([demo_image] ! 0)
          (filter (accepts demo_ext) (findContours demo_ext demo_mask))"
    using t r l by blast
  have b: "Imshow WinOriginal (ColorMat (imread demo_ext ''hero.png'')) \<in> set (events (main demo_ext))"
    using t demo_main_ok by blast
  show ?thesis
    using a b r one demo_main_ok
    by (simp add: demo_findContours demo_filter demo_draw demo_imread demo_image_def)
qed

end
